theory Spec2Isabelle
  imports Main "HOL-Library.AList"
begin

section \<open>JavaScript values used by the worker\<close>

text \<open>
  The worker is a single JavaScript module (the latest revision of \<^verbatim>\<open>worker.js\<close>).
  A JavaScript string is a list of code units; the model keeps the code units
  \<open>0 .. 255\<close> (one \<^typ>\<open>char\<close> each), so \<^const>\<open>length\<close> is the \<^verbatim>\<open>.length\<close> of
  such a string.  A value obtained from \<^verbatim>\<open>JSON.parse\<close> is a \<open>json\<close>.  A number is kept
  as the text \<^verbatim>\<open>String(...)\<close> gives for it (\<^verbatim>\<open>0\<close> for both zeros, \<^verbatim>\<open>1.5\<close>, \<^verbatim>\<open>1e+21\<close>):
  the handlers print numbers and test them for truthiness, and do nothing else with them.
  \<^verbatim>\<open>undefined\<close> is \<open>None\<close> of \<open>json option\<close>.  An object is an association list
  with one binding for each key.
\<close>

datatype json =
    JNull
  | JBool bool
  | JNum string
  | JStr string
  | JArr "json list"
  | JObj "(string \<times> json) list"

text \<open>
  What a \<^verbatim>\<open>throw\<close> carries: an error object with its \<^verbatim>\<open>name\<close> and
  \<^verbatim>\<open>message\<close>, or a bare string (the reason handed to \<^verbatim>\<open>AbortController.abort\<close>).
\<close>

datatype js_exn = JsError string string | ThrownStr string

text \<open>The fate of an awaited computation: a value, an exception, or no answer at all.\<close>

datatype 'a fate = Returns 'a | Throws js_exn | Hangs

text \<open>
  A pending outbound call: it settles some milliseconds after it was started, with a
  value or with a rejection, or it never settles.
\<close>

datatype 'a promise = Fulfilled nat 'a | Rejected nat js_exn | Pending

definition await :: "'a promise \<Rightarrow> 'a fate" where
  "await p = (case p of Fulfilled t v \<Rightarrow> Returns v | Rejected t e \<Rightarrow> Throws e | Pending \<Rightarrow> Hangs)"

text \<open>\<^verbatim>\<open>try { ... } catch (e) { ... }\<close> around a computation.\<close>

definition try_catch :: "'a fate \<Rightarrow> (js_exn \<Rightarrow> 'a fate) \<Rightarrow> 'a fate" where
  "try_catch m h = (case m of Throws e \<Rightarrow> h e | Returns v \<Rightarrow> Returns v | Hangs \<Rightarrow> Hangs)"

definition and_then :: "'a fate \<Rightarrow> ('a \<Rightarrow> 'b fate) \<Rightarrow> 'b fate" where
  "and_then m f = (case m of Returns v \<Rightarrow> f v | Throws e \<Rightarrow> Throws e | Hangs \<Rightarrow> Hangs)"

subsection \<open>Truthiness, property reads, \<^verbatim>\<open>||\<close>\<close>

fun truthy :: "json \<Rightarrow> bool" where
  "truthy JNull = False"
| "truthy (JBool b) = b"
| "truthy (JNum n) = (n \<noteq> ''0'')"
| "truthy (JStr s) = (s \<noteq> [])"
| "truthy (JArr xs) = True"
| "truthy (JObj kvs) = True"

definition truthy_opt :: "json option \<Rightarrow> bool" where
  "truthy_opt v = (case v of None \<Rightarrow> False | Some x \<Rightarrow> truthy x)"

text \<open>
  \<^verbatim>\<open>v?.k\<close> for the keys the worker reads (\<^verbatim>\<open>id\<close>, \<^verbatim>\<open>name\<close>, \<^verbatim>\<open>data\<close>, \<^verbatim>\<open>model\<close>, ...):
  only an object has them.
\<close>

fun js_get :: "json \<Rightarrow> string \<Rightarrow> json option" where
  "js_get (JObj kvs) k = map_of kvs k"
| "js_get v k = None"

definition js_or :: "json option \<Rightarrow> json option \<Rightarrow> json option" where
  "js_or a b = (if truthy_opt a then a else b)"

text \<open>An object literal; a property whose value is \<^verbatim>\<open>undefined\<close> is not written out.\<close>

fun obj_of :: "(string \<times> json option) list \<Rightarrow> (string \<times> json) list" where
  "obj_of [] = []"
| "obj_of ((k, None) # ps) = obj_of ps"
| "obj_of ((k, Some v) # ps) = (k, v) # obj_of ps"

definition str_truthy :: "string option \<Rightarrow> bool" where
  "str_truthy v = (case v of None \<Rightarrow> False | Some s \<Rightarrow> s \<noteq> [])"

definition str_or :: "string option \<Rightarrow> string \<Rightarrow> string" where
  "str_or v d = (case v of None \<Rightarrow> d | Some s \<Rightarrow> if s = [] then d else s)"

subsection \<open>Strings\<close>

definition is_space :: "char \<Rightarrow> bool" where
  "is_space c = (c \<in> set [CHR 0x09, CHR 0x0A, CHR 0x0B, CHR 0x0C, CHR 0x0D, CHR 0x20, CHR 0xA0])"

definition trim :: "string \<Rightarrow> string" where
  "trim s = rev (dropWhile is_space (rev (dropWhile is_space s)))"

text \<open>
  \<^verbatim>\<open>toLowerCase\<close> on the code units kept here: the letters \<open>A .. Z\<close> and the
  upper-case letters of the range \<open>0xC0 .. 0xDE\<close> have a lower-case form, \<open>0x20\<close> above.
\<close>

definition ascii_upper :: string where
  "ascii_upper = ''ABCDEFGHIJKLMNOPQRSTUVWXYZ''"

definition ascii_lower :: string where
  "ascii_lower = ''abcdefghijklmnopqrstuvwxyz''"

definition latin_upper :: string where
  "latin_upper =
       [CHR 0xC0, CHR 0xC1, CHR 0xC2, CHR 0xC3, CHR 0xC4, CHR 0xC5, CHR 0xC6, CHR 0xC7,
        CHR 0xC8, CHR 0xC9, CHR 0xCA, CHR 0xCB, CHR 0xCC, CHR 0xCD, CHR 0xCE, CHR 0xCF,
        CHR 0xD0, CHR 0xD1, CHR 0xD2, CHR 0xD3, CHR 0xD4, CHR 0xD5, CHR 0xD6, CHR 0xD8,
        CHR 0xD9, CHR 0xDA, CHR 0xDB, CHR 0xDC, CHR 0xDD, CHR 0xDE]"

definition latin_lower :: string where
  "latin_lower =
       [CHR 0xE0, CHR 0xE1, CHR 0xE2, CHR 0xE3, CHR 0xE4, CHR 0xE5, CHR 0xE6, CHR 0xE7,
        CHR 0xE8, CHR 0xE9, CHR 0xEA, CHR 0xEB, CHR 0xEC, CHR 0xED, CHR 0xEE, CHR 0xEF,
        CHR 0xF0, CHR 0xF1, CHR 0xF2, CHR 0xF3, CHR 0xF4, CHR 0xF5, CHR 0xF6, CHR 0xF8,
        CHR 0xF9, CHR 0xFA, CHR 0xFB, CHR 0xFC, CHR 0xFD, CHR 0xFE]"

definition lower_char :: "char \<Rightarrow> char" where
  "lower_char c =
     (case map_of (zip (ascii_upper @ latin_upper) (ascii_lower @ latin_lower)) c of
        None \<Rightarrow> c
      | Some d \<Rightarrow> d)"

definition toLowerCase :: "string \<Rightarrow> string" where
  "toLowerCase s = map lower_char s"

fun starts_with :: "string \<Rightarrow> string \<Rightarrow> bool" where
  "starts_with s [] = True"
| "starts_with [] (c # t) = False"
| "starts_with (d # s) (c # t) = (d = c \<and> starts_with s t)"

fun includes_str :: "string \<Rightarrow> string \<Rightarrow> bool" where
  "includes_str [] t = (t = [])"
| "includes_str (c # s) t = (starts_with (c # s) t \<or> includes_str s t)"

fun digits :: "nat \<Rightarrow> string" where
  "digits n = (if n < 10 then [''0123456789'' ! n]
               else digits (n div 10) @ [''0123456789'' ! (n mod 10)])"

definition show_int :: "int \<Rightarrow> string" where
  "show_int i = (if i < 0 then CHR ''-'' # digits (nat (- i)) else digits (nat i))"

text \<open>
  \<^verbatim>\<open>String(v)\<close>.  An object that has a \<^verbatim>\<open>toString\<close> entry of its own cannot be
  converted (the entry is data, not a function, and \<^verbatim>\<open>valueOf\<close> gives no primitive);
  an array joins the conversions of its elements, \<^verbatim>\<open>null\<close> giving the empty text.
\<close>

definition cannot_convert :: js_exn where
  "cannot_convert = JsError ''TypeError'' ''Cannot convert object to primitive value''"

fun js_String :: "json \<Rightarrow> js_exn + string"
  and js_join :: "json list \<Rightarrow> js_exn + string" where
  "js_String JNull = Inr ''null''"
| "js_String (JBool b) = Inr (if b then ''true'' else ''false'')"
| "js_String (JNum n) = Inr n"
| "js_String (JStr s) = Inr s"
| "js_String (JArr xs) = js_join xs"
| "js_String (JObj kvs) =
     (if map_of kvs ''toString'' \<noteq> None then Inl cannot_convert else Inr ''[object Object]'')"
| "js_join [] = Inr []"
| "js_join (x # xs) =
     (case (if x = JNull then Inr [] else js_String x) of
        Inl e \<Rightarrow> Inl e
      | Inr s \<Rightarrow>
          (if xs = [] then Inr s
           else (case js_join xs of Inl e \<Rightarrow> Inl e | Inr t \<Rightarrow> Inr (s @ '','' @ t))))"

text \<open>\<^verbatim>\<open>String(v || d)\<close> for a property read \<open>v\<close> and a default text \<open>d\<close>.\<close>

definition String_or :: "json option \<Rightarrow> string \<Rightarrow> string fate" where
  "String_or v d =
     (case js_or v (Some (JStr d)) of
        None \<Rightarrow> Returns ''undefined''
      | Some x \<Rightarrow> (case js_String x of Inl e \<Rightarrow> Throws e | Inr s \<Rightarrow> Returns s))"

text \<open>\<^verbatim>\<open>String(v || d).trim()\<close>\<close>

definition string_field :: "json option \<Rightarrow> string \<Rightarrow> string fate" where
  "string_field v d = and_then (String_or v d) (\<lambda>s. Returns (trim s))"

text \<open>\<^verbatim>\<open>String(e?.message || e)\<close> for a caught value.\<close>

fun exn_text :: "js_exn \<Rightarrow> string" where
  "exn_text (ThrownStr s) = s"
| "exn_text (JsError nm msg) =
     (if msg \<noteq> [] then msg else nm)"


subsection \<open>Numbers read from the configuration\<close>

datatype js_num = Finite int | NaN | PosInf | NegInf

text \<open>\<^verbatim>\<open>a < b\<close> for an integer \<open>a\<close> (a difference of two clock readings).\<close>

fun less_num :: "int \<Rightarrow> js_num \<Rightarrow> bool" where
  "less_num a (Finite b) = (a < b)"
| "less_num a NaN = False"
| "less_num a PosInf = True"
| "less_num a NegInf = False"

section \<open>Requests, responses, the environment\<close>

text \<open>
  The bindings of \<^verbatim>\<open>env\<close>.  A text binding is \<open>None\<close> when it is not set.
  \<open>MODELS_CACHE_TTL_MS\<close> is \<open>None\<close> when the binding is unset or falsy, and otherwise
  holds the number \<^verbatim>\<open>Number(...)\<close> gives for it (a fractional value compares with
  an age in whole milliseconds as its ceiling does).
\<close>

record env =
  OPEN_ROUTER_API_KEY :: "string option"
  OPENROUTER_BASE_URL :: "string option"
  MODELS_CACHE_TTL_MS :: "js_num option"
  SITE_URL :: "string option"
  SITE_NAME :: "string option"
  ALLOWED_ORIGIN :: "string option"
  SUPABASE_URL :: "string option"
  SUPABASE_ANON_KEY :: "string option"

text \<open>
  An inbound request: \<open>req_json\<close> is what \<^verbatim>\<open>request.json()\<close> gives, \<open>None\<close> when it
  throws; \<open>req_pathname\<close> and \<open>req_search\<close> are \<^verbatim>\<open>new URL(request.url)\<close>.
\<close>

record request =
  req_method :: string
  req_pathname :: string
  req_search :: "(string \<times> string) list"
  req_headers :: "(string \<times> string) list"
  req_json :: "json option"

datatype body = NoBody | Text string | Json json | Stream "string list"

record response =
  status :: nat
  headers :: "(string \<times> string) list"
  resp_body :: body

text \<open>
  What the upstream answers: \<open>up_body\<close> is the body stream as its chunks (\<open>None\<close> for
  a null body), \<open>up_ends\<close> tells whether that stream comes to an end, and \<open>up_json\<close> is
  what \<^verbatim>\<open>res.json()\<close> gives or throws once the body has been read.
\<close>

record upstream_response =
  up_status :: nat
  up_body :: "string list option"
  up_ends :: bool
  up_json :: "js_exn + json"

definition ok :: "upstream_response \<Rightarrow> bool" where
  "ok res = (200 \<le> up_status res \<and> up_status res \<le> 299)"

text \<open>
  \<^verbatim>\<open>await res.json()\<close> and \<^verbatim>\<open>await res.text()\<close>: a body that never ends is never read to
  its end.
\<close>

definition unending :: "upstream_response \<Rightarrow> bool" where
  "unending res = (case up_body res of None \<Rightarrow> False | Some chunks \<Rightarrow> \<not> up_ends res)"

definition res_json :: "upstream_response \<Rightarrow> json fate" where
  "res_json res =
     (if unending res then Hangs
      else (case up_json res of Inl e \<Rightarrow> Throws e | Inr d \<Rightarrow> Returns d))"

definition res_text :: "upstream_response \<Rightarrow> string fate" where
  "res_text res =
     (if unending res then Hangs
      else Returns (concat (case up_body res of None \<Rightarrow> [] | Some chunks \<Rightarrow> chunks)))"

record outbound =
  url :: string
  out_method :: string
  out_headers :: "(string \<times> string) list"
  out_body :: "json option"

type_synonym network = "outbound \<Rightarrow> upstream_response promise"

text \<open>
  One handler run: the response (or the exception that escapes the handler, or no
  answer), the outbound calls it made, and those of them it aborted.
\<close>

record run =
  reply :: "response fate"
  calls :: "outbound list"
  aborted :: "outbound list"

definition answer :: "response fate \<Rightarrow> run" where
  "answer r = \<lparr>reply = r, calls = [], aborted = []\<rparr>"

subsection \<open>Headers\<close>

fun join_with :: "string \<Rightarrow> string list \<Rightarrow> string" where
  "join_with sep [] = []"
| "join_with sep [v] = v"
| "join_with sep (v # w # vs) = v @ sep @ join_with sep (w # vs)"

text \<open>\<^verbatim>\<open>headers.get(name)\<close>: names compare without case, repeated values are joined.\<close>

definition headers_get :: "(string \<times> string) list \<Rightarrow> string \<Rightarrow> string option" where
  "headers_get hs name =
     (case map snd (filter (\<lambda>kv. toLowerCase (fst kv) = toLowerCase name) hs) of
        [] \<Rightarrow> None
      | v # vs \<Rightarrow> Some (join_with '', '' (v # vs)))"

text \<open>\<^verbatim>\<open>{ ...a, ...b }\<close>: a key of \<open>b\<close> replaces the value the key has in \<open>a\<close>.\<close>

definition spread :: "(string \<times> string) list \<Rightarrow> (string \<times> string) list \<Rightarrow> (string \<times> string) list" where
  "spread a b = fold (\<lambda>kv. AList.update (fst kv) (snd kv)) b a"

definition corsHeaders :: "request \<Rightarrow> env \<Rightarrow> (string \<times> string) list" where
  "corsHeaders request env =
     (let origin = str_or (headers_get (req_headers request) ''Origin'') ''*'';
          allowed = str_or (ALLOWED_ORIGIN env) ''*'';
          value = (if allowed = ''*'' then ''*'' else (if origin = allowed then allowed else ''null''))
      in [(''access-control-allow-origin'', value),
          (''access-control-allow-methods'', ''GET,POST,OPTIONS''),
          (''access-control-allow-headers'', ''content-type''),
          (''vary'', ''Origin'')])"

text \<open>
  \<^verbatim>\<open>new Response(body, { status, headers })\<close> refuses a status outside \<open>200 .. 599\<close>
  and a body together with a null-body status.
\<close>

definition bad_status :: js_exn where
  "bad_status = JsError ''RangeError''
     ''Responses may only be constructed with status codes in the range 200 to 599, inclusive.''"

definition null_body_status :: js_exn where
  "null_body_status = JsError ''TypeError''
     ''Response with null body status (101, 204, 205, or 304) cannot have a body.''"

definition new_Response :: "body \<Rightarrow> nat \<Rightarrow> (string \<times> string) list \<Rightarrow> response fate" where
  "new_Response b st hs =
     (if st < 200 \<or> 599 < st then Throws bad_status
      else if b \<noteq> NoBody \<and> st \<in> set [204, 205, 304] then Throws null_body_status
      else Returns \<lparr>status = st, headers = hs, resp_body = b\<rparr>)"

definition json :: "json \<Rightarrow> nat \<Rightarrow> (string \<times> string) list \<Rightarrow> response fate" where
  "json data st hs =
     new_Response (Json data) st (spread [(''content-type'', ''application/json; charset=utf-8'')] hs)"

definition htmlResponse :: "string \<Rightarrow> request \<Rightarrow> env \<Rightarrow> response fate" where
  "htmlResponse html request env =
     new_Response (Text html) 200
       (spread [(''content-type'', ''text/html; charset=utf-8'')] (corsHeaders request env))"

subsection \<open>Constants and small helpers of the worker\<close>

definition DEFAULT_BASE :: string where
  "DEFAULT_BASE = ''https://openrouter.ai/api/v1''"

definition DEFAULT_MODELS_CACHE_TTL_MS :: int where
  "DEFAULT_MODELS_CACHE_TTL_MS = 300000"

definition MAX_PROMPT_CHARS :: nat where
  "MAX_PROMPT_CHARS = 8000"

definition openRouterHeaders :: "env \<Rightarrow> (string \<times> string) list" where
  "openRouterHeaders env =
     (let h = [(''Authorization'',
                ''Bearer '' @ (case OPEN_ROUTER_API_KEY env of None \<Rightarrow> ''undefined'' | Some k \<Rightarrow> k))];
          h1 = (case SITE_URL env of
                  None \<Rightarrow> h
                | Some u \<Rightarrow> if u = [] then h else AList.update ''HTTP-Referer'' u h);
          h2 = (case SITE_NAME env of
                  None \<Rightarrow> h1
                | Some n \<Rightarrow> if n = [] then h1 else AList.update ''X-Title'' n h1)
      in h2)"

definition fallbackModels :: "json list" where
  "fallbackModels =
     [JObj [(''id'', JStr ''openai/gpt-4o-mini''), (''name'', JStr ''GPT-4o mini'')],
      JObj [(''id'', JStr ''google/gemini-2.0-flash-001''), (''name'', JStr ''Gemini 2.0 Flash'')],
      JObj [(''id'', JStr ''anthropic/claude-3.5-haiku''), (''name'', JStr ''Claude 3.5 Haiku'')]]"

definition personaPrompt :: "string option \<Rightarrow> string" where
  "personaPrompt persona =
     (let p = toLowerCase (str_or persona ''default'')
      in if p = ''sales'' then
           ''You are a sales assistant. Be persuasive, concise, and CTA-driven while staying honest.''
         else if p = ''tutor'' then
           ''You are a tutor. Explain step-by-step, ask check questions, and adapt to learner level.''
         else if p = ''support'' then
           ''You are a customer support agent. Be calm, precise, and solution-first.''
         else ''You are Ko Paing style assistant: concise, practical, safe.'')"


section \<open>Model listing\<close>

text \<open>The module variable \<^verbatim>\<open>modelsCache\<close>, \<^verbatim>\<open>{ at: 0, data: null }\<close> at start.\<close>

record cache =
  at :: int
  data :: "json list option"

definition modelsCache_init :: cache where
  "modelsCache_init = \<lparr>at = 0, data = None\<rparr>"

text \<open>\<^verbatim>\<open>Array.isArray(data?.data) ? data.data : []\<close>\<close>

definition upstream_entries :: "json \<Rightarrow> json list" where
  "upstream_entries d = (case js_get d ''data'' of Some (JArr xs) \<Rightarrow> xs | _ \<Rightarrow> [])"

text \<open>\<^verbatim>\<open>(m) => ({ id: m?.id, name: m?.name || m?.id })\<close>\<close>

definition project :: "json \<Rightarrow> json" where
  "project m = JObj (obj_of [(''id'', js_get m ''id''),
                             (''name'', js_or (js_get m ''name'') (js_get m ''id''))])"

definition project_all :: "json \<Rightarrow> json list" where
  "project_all d = filter (\<lambda>m. truthy_opt (js_get m ''id'')) (map project (upstream_entries d))"

definition models_call :: "env \<Rightarrow> outbound" where
  "models_call env =
     \<lparr>url = str_or (OPENROUTER_BASE_URL env) DEFAULT_BASE @ ''/models'',
      out_method = ''GET'',
      out_headers = openRouterHeaders env,
      out_body = None\<rparr>"

definition models_ttl :: "env \<Rightarrow> js_num" where
  "models_ttl env =
     (case MODELS_CACHE_TTL_MS env of None \<Rightarrow> Finite DEFAULT_MODELS_CACHE_TTL_MS | Some v \<Rightarrow> v)"

definition models_reply :: "json list \<Rightarrow> (string \<times> bool) list \<Rightarrow> json" where
  "models_reply ms flags = JObj ((''models'', JArr ms) # map (\<lambda>f. (fst f, JBool (snd f))) flags)"

text \<open>The \<^verbatim>\<open>catch (e)\<close> of \<^verbatim>\<open>handleModels\<close>.\<close>

definition models_caught :: "request \<Rightarrow> env \<Rightarrow> js_exn \<Rightarrow> response fate" where
  "models_caught request env e =
     json (models_reply fallbackModels [(''fallback'', True), (''degraded'', True)]) 200
          (corsHeaders request env)"

text \<open>
  The \<^verbatim>\<open>try { ... } catch (e) { ... }\<close> block of \<^verbatim>\<open>handleModels\<close>: one outbound
  call, then the three ways out of the \<^verbatim>\<open>try\<close>, and the \<^verbatim>\<open>catch\<close>.
\<close>

definition handleModels_try :: "request \<Rightarrow> env \<Rightarrow> int \<Rightarrow> network \<Rightarrow> cache \<Rightarrow> run \<times> cache" where
  "handleModels_try request env now net modelsCache =
     (let cors = corsHeaders request env;
          caught = models_caught request env;
          call = models_call env
      in (case await (net call) of
            Hangs \<Rightarrow> (\<lparr>reply = Hangs, calls = [call], aborted = []\<rparr>, modelsCache)
          | Throws e \<Rightarrow> (\<lparr>reply = caught e, calls = [call], aborted = []\<rparr>, modelsCache)
          | Returns res \<Rightarrow>
              if \<not> ok res then
                (\<lparr>reply = try_catch (json (models_reply fallbackModels [(''fallback'', True)]) 200 cors)
                                    caught,
                  calls = [call], aborted = []\<rparr>, modelsCache)
              else
                (case res_json res of
                   Hangs \<Rightarrow> (\<lparr>reply = Hangs, calls = [call], aborted = []\<rparr>, modelsCache)
                 | Throws e \<Rightarrow> (\<lparr>reply = caught e, calls = [call], aborted = []\<rparr>, modelsCache)
                 | Returns d \<Rightarrow>
                     let models = project_all d in
                     if models = [] then
                       (\<lparr>reply = try_catch (json (models_reply fallbackModels [(''fallback'', True)])
                                             200 cors) caught,
                         calls = [call], aborted = []\<rparr>, modelsCache)
                     else
                       (\<lparr>reply = try_catch (json (models_reply models [(''cached'', False)]) 200 cors)
                                           caught,
                         calls = [call], aborted = []\<rparr>,
                        \<lparr>at = now, data = Some models\<rparr>))))"

text \<open>
  \<open>handleModels request env now net modelsCache\<close>: \<open>now\<close> is the reading of
  \<^verbatim>\<open>Date.now()\<close>; the result carries the value of \<^verbatim>\<open>modelsCache\<close> afterwards.
\<close>

definition handleModels :: "request \<Rightarrow> env \<Rightarrow> int \<Rightarrow> network \<Rightarrow> cache \<Rightarrow> run \<times> cache" where
  "handleModels request env now net modelsCache =
     (if \<not> str_truthy (OPEN_ROUTER_API_KEY env) then
        (answer (json (JObj [(''error'', JStr ''OPEN_ROUTER_API_KEY missing''),
                             (''code'', JStr ''CONFIG_ERROR'')]) 500 (corsHeaders request env)),
         modelsCache)
      else
        let ttl = models_ttl env in
        (case data modelsCache of
           Some cached \<Rightarrow>
             if less_num (now - at modelsCache) ttl then
               (answer (json (models_reply cached [(''cached'', True)]) 200 (corsHeaders request env)),
                modelsCache)
             else handleModels_try request env now net modelsCache
         | None \<Rightarrow> handleModels_try request env now net modelsCache))"

subsection \<open>The model listing between its awaits\<close>

text \<open>
  \<^verbatim>\<open>handleModels\<close> gives up control at \<^verbatim>\<open>await fetch(...)\<close> and at \<^verbatim>\<open>await res.json()\<close>;
  other requests run in between.  The three stretches of the function that run without
  interruption: up to the first await (it reads \<^verbatim>\<open>modelsCache\<close>), from the settled call
  to the second await, and from the parsed body to the end (it may assign
  \<^verbatim>\<open>modelsCache\<close>).  A stretch ends with the response or with the point where the
  function waits; the last one runs only when the body has been read to its end.
\<close>

datatype suspended = AtFetch request int | AtJson request int upstream_response

definition handleModels_begin :: "request \<Rightarrow> env \<Rightarrow> int \<Rightarrow> cache \<Rightarrow> response fate + suspended" where
  "handleModels_begin request env now modelsCache =
     (if \<not> str_truthy (OPEN_ROUTER_API_KEY env) then
        Inl (json (JObj [(''error'', JStr ''OPEN_ROUTER_API_KEY missing''),
                         (''code'', JStr ''CONFIG_ERROR'')]) 500 (corsHeaders request env))
      else
        let ttl = models_ttl env in
        (case data modelsCache of
           Some cached \<Rightarrow>
             if less_num (now - at modelsCache) ttl then
               Inl (json (models_reply cached [(''cached'', True)]) 200 (corsHeaders request env))
             else Inr (AtFetch request now)
         | None \<Rightarrow> Inr (AtFetch request now)))"

definition handleModels_fetched ::
  "request \<Rightarrow> env \<Rightarrow> int \<Rightarrow> js_exn + upstream_response \<Rightarrow> response fate + suspended" where
  "handleModels_fetched request env now settled =
     (case settled of
        Inl e \<Rightarrow> Inl (models_caught request env e)
      | Inr res \<Rightarrow>
          if \<not> ok res then
            Inl (try_catch (json (models_reply fallbackModels [(''fallback'', True)]) 200
                                 (corsHeaders request env))
                           (models_caught request env))
          else Inr (AtJson request now res))"

definition handleModels_parsed ::
  "request \<Rightarrow> env \<Rightarrow> int \<Rightarrow> upstream_response \<Rightarrow> cache \<Rightarrow> response fate \<times> cache" where
  "handleModels_parsed request env now res modelsCache =
     (case res_json res of
        Hangs \<Rightarrow> (Hangs, modelsCache)
      | Throws e \<Rightarrow> (models_caught request env e, modelsCache)
      | Returns d \<Rightarrow>
          let models = project_all d in
          if models = [] then
            (try_catch (json (models_reply fallbackModels [(''fallback'', True)]) 200
                             (corsHeaders request env))
                       (models_caught request env),
             modelsCache)
          else
            (try_catch (json (models_reply models [(''cached'', False)]) 200 (corsHeaders request env))
                       (models_caught request env),
             \<lparr>at = now, data = Some models\<rparr>))"

text \<open>
  The states of the worker under any interleaving of calls to the model listing: the
  value of \<^verbatim>\<open>modelsCache\<close> and the calls that are waiting.  (No other handler reads or
  assigns \<^verbatim>\<open>modelsCache\<close>.)
\<close>

inductive interleaved :: "env \<Rightarrow> cache \<Rightarrow> suspended list \<Rightarrow> bool" for env :: env where
  boot: "interleaved env modelsCache_init []"
| arrives:
    "interleaved env c ps \<Longrightarrow> handleModels_begin request env now c = Inr p \<Longrightarrow>
     interleaved env c (p # ps)"
| fetch_answers:
    "interleaved env c ps \<Longrightarrow> AtFetch request now \<in> set ps \<Longrightarrow>
     handleModels_fetched request env now settled = Inl resp \<Longrightarrow>
     interleaved env c (remove1 (AtFetch request now) ps)"
| fetch_continues:
    "interleaved env c ps \<Longrightarrow> AtFetch request now \<in> set ps \<Longrightarrow>
     handleModels_fetched request env now settled = Inr p \<Longrightarrow>
     interleaved env c (p # remove1 (AtFetch request now) ps)"
| parses:
    "interleaved env c ps \<Longrightarrow> AtJson request now res \<in> set ps \<Longrightarrow> \<not> unending res \<Longrightarrow>
     handleModels_parsed request env now res c = (resp, c') \<Longrightarrow>
     interleaved env c' (remove1 (AtJson request now res) ps)"


section \<open>Chat relay\<close>

text \<open>
  \<^verbatim>\<open>fetch(..., { signal: ac.signal })\<close> under the timer
  \<^verbatim>\<open>setTimeout(() => ac.abort(reason), delay)\<close>: a call that has not settled when the
  timer runs is aborted and rejects with the reason.  The timer runs no earlier than
  \<open>delay\<close> milliseconds after it was set; a call that settles at exactly \<open>delay\<close> is
  taken as settled.  The second component tells whether the call was aborted.
\<close>

definition fetch_with_timer :: "nat \<Rightarrow> string \<Rightarrow> 'a promise \<Rightarrow> 'a fate \<times> bool" where
  "fetch_with_timer delay reason p =
     (case p of
        Fulfilled t v \<Rightarrow> if t \<le> delay then (Returns v, False) else (Throws (ThrownStr reason), True)
      | Rejected t e \<Rightarrow> if t \<le> delay then (Throws e, False) else (Throws (ThrownStr reason), True)
      | Pending \<Rightarrow> (Throws (ThrownStr reason), True))"

definition chat_call :: "env \<Rightarrow> string \<Rightarrow> string \<Rightarrow> string \<Rightarrow> outbound" where
  "chat_call env model prompt persona =
     \<lparr>url = str_or (OPENROUTER_BASE_URL env) DEFAULT_BASE @ ''/chat/completions'',
      out_method = ''POST'',
      out_headers = spread (openRouterHeaders env)
                      [(''content-type'', ''application/json''), (''accept'', ''text/event-stream'')],
      out_body = Some (JObj
        [(''model'', JStr model),
         (''stream'', JBool True),
         (''messages'', JArr
            [JObj [(''role'', JStr ''system''), (''content'', JStr (personaPrompt (Some persona)))],
             JObj [(''role'', JStr ''user''), (''content'', JStr prompt)]])])\<rparr>"

text \<open>The \<^verbatim>\<open>catch (e)\<close> of \<^verbatim>\<open>handleChat\<close>.\<close>

definition chat_caught :: "request \<Rightarrow> env \<Rightarrow> js_exn \<Rightarrow> response fate" where
  "chat_caught request env e =
     (let timeout = includes_str (exn_text e) ''upstream_timeout''
      in json (JObj [(''error'', JStr (if timeout then ''upstream timeout'' else ''network failure''))])
              (if timeout then 504 else 502) (corsHeaders request env))"

text \<open>
  \<^verbatim>\<open>const txt = await upstream.text().catch(() => "")\<close> (the text only goes to the log),
  then \<^verbatim>\<open>json({ error: "upstream error", status: upstream.status }, upstream.status || 502, ...)\<close>.
\<close>

definition upstream_error :: "request \<Rightarrow> env \<Rightarrow> upstream_response \<Rightarrow> response fate" where
  "upstream_error request env upstream =
     and_then (try_catch (res_text upstream) (\<lambda>e. Returns [])) (\<lambda>txt.
     json (JObj [(''error'', JStr ''upstream error''),
                 (''status'', JNum (show_int (int (up_status upstream))))])
          (if up_status upstream = 0 then 502 else up_status upstream)
          (corsHeaders request env))"

text \<open>What \<^verbatim>\<open>handleChat\<close> does once \<^verbatim>\<open>model\<close>, \<^verbatim>\<open>prompt\<close> and \<^verbatim>\<open>persona\<close> have passed the checks.\<close>

definition chat_relay :: "request \<Rightarrow> env \<Rightarrow> network \<Rightarrow> string \<Rightarrow> string \<Rightarrow> string \<Rightarrow> run" where
  "chat_relay request env net model prompt persona =
     (let call = chat_call env model prompt persona;
          fetched = fetch_with_timer 30000 ''upstream_timeout'' (net call);
          tried =
            (case fst fetched of
               Returns upstream \<Rightarrow>
                 (case up_body upstream of
                    None \<Rightarrow> upstream_error request env upstream
                  | Some chunks \<Rightarrow>
                      if \<not> ok upstream then upstream_error request env upstream
                      else
                        new_Response (Stream chunks) 200
                          (spread [(''content-type'', ''text/event-stream; charset=utf-8''),
                                   (''cache-control'', ''no-cache, no-transform''),
                                   (''x-accel-buffering'', ''no'')]
                                  (corsHeaders request env)))
             | Throws e \<Rightarrow> Throws e
             | Hangs \<Rightarrow> Hangs)
      in \<lparr>reply = try_catch tried (chat_caught request env),
          calls = [call],
          aborted = (if snd fetched then [call] else [])\<rparr>)"

definition with_field :: "string fate \<Rightarrow> (string \<Rightarrow> run) \<Rightarrow> run" where
  "with_field f k = (case f of Returns s \<Rightarrow> k s | Throws e \<Rightarrow> answer (Throws e) | Hangs \<Rightarrow> answer Hangs)"

definition handleChat :: "request \<Rightarrow> env \<Rightarrow> network \<Rightarrow> run" where
  "handleChat request env net =
     (if \<not> str_truthy (OPEN_ROUTER_API_KEY env) then
        answer (json (JObj [(''error'', JStr ''OPEN_ROUTER_API_KEY missing''),
                            (''code'', JStr ''CONFIG_ERROR'')]) 500 (corsHeaders request env))
      else
        (case req_json request of
           None \<Rightarrow> answer (json (JObj [(''error'', JStr ''Invalid JSON'')]) 400 (corsHeaders request env))
         | Some body \<Rightarrow>
             with_field (string_field (js_get body ''model'') []) (\<lambda>model.
             with_field (string_field (js_get body ''prompt'') []) (\<lambda>prompt.
             with_field (string_field (js_get body ''persona'') ''default'') (\<lambda>persona.
               if model = [] then
                 answer (json (JObj [(''error'', JStr ''model is required'')]) 400 (corsHeaders request env))
               else if prompt = [] then
                 answer (json (JObj [(''error'', JStr ''prompt is required'')]) 400 (corsHeaders request env))
               else if length prompt > MAX_PROMPT_CHARS then
                 answer (json (JObj [(''error'', JStr (''prompt exceeds '' @ show_int (int MAX_PROMPT_CHARS)
                                                        @ '' chars''))])
                              400 (corsHeaders request env))
               else chat_relay request env net model prompt persona)))))"

section \<open>Store passthrough\<close>

text \<open>
  \<^verbatim>\<open>encodeURIComponent\<close>: the unreserved characters stay, every other code unit is
  written as the percent-escaped octets of its UTF-8 form (two octets from \<open>0x80\<close> on).
\<close>

definition unreserved :: string where
  "unreserved = ''ABCDEFGHIJKLMNOPQRSTUVWXYZabcdefghijklmnopqrstuvwxyz0123456789-_.!~*'' @ [CHR 0x27] @ ''()''"

definition percent :: "nat \<Rightarrow> string" where
  "percent b = [CHR ''%'', ''0123456789ABCDEF'' ! (b div 16), ''0123456789ABCDEF'' ! (b mod 16)]"

definition encode_unit :: "char \<Rightarrow> string" where
  "encode_unit c =
     (let n = (of_char c :: nat)
      in if c \<in> set unreserved then [c]
         else if n < 128 then percent n
         else percent (192 + n div 64) @ percent (128 + n mod 64))"

definition encodeURIComponent :: "string \<Rightarrow> string" where
  "encodeURIComponent s = concat (map encode_unit s)"

text \<open>A binding of \<^verbatim>\<open>env\<close> inside a template literal.\<close>

definition env_text :: "string option \<Rightarrow> string" where
  "env_text v = (case v of None \<Rightarrow> ''undefined'' | Some s \<Rightarrow> s)"

definition supabaseHeaders :: "env \<Rightarrow> (string \<times> string) list" where
  "supabaseHeaders env =
     [(''apikey'', env_text (SUPABASE_ANON_KEY env)),
      (''Authorization'', ''Bearer '' @ env_text (SUPABASE_ANON_KEY env)),
      (''content-type'', ''application/json'')]"

definition supabase_missing :: "env \<Rightarrow> bool" where
  "supabase_missing env = (\<not> str_truthy (SUPABASE_URL env) \<or> \<not> str_truthy (SUPABASE_ANON_KEY env))"

definition not_configured :: "request \<Rightarrow> env \<Rightarrow> response fate" where
  "not_configured request env =
     json (JObj [(''ok'', JBool False), (''code'', JStr ''SUPABASE_NOT_CONFIGURED'')]) 200
          (corsHeaders request env)"

text \<open>\<^verbatim>\<open>catch (e) { return json({ ok: false, error: String(e?.message || e) }, 500, ...) }\<close>\<close>

definition store_caught :: "request \<Rightarrow> env \<Rightarrow> js_exn \<Rightarrow> response fate" where
  "store_caught request env e =
     json (JObj [(''ok'', JBool False), (''error'', JStr (exn_text e))]) 500 (corsHeaders request env)"

text \<open>\<^verbatim>\<open>Array.isArray(arr) && arr[0] ? arr[0][k] : d\<close>\<close>

definition first_row_field :: "json \<Rightarrow> string \<Rightarrow> json \<Rightarrow> json option" where
  "first_row_field arr k d =
     (case arr of
        JArr (x # xs) \<Rightarrow> if truthy x then js_get x k else Some d
      | _ \<Rightarrow> Some d)"

text \<open>The select of one row by key, shared by the two \<^verbatim>\<open>GET\<close> handlers of the store.\<close>

definition select_row ::
  "request \<Rightarrow> env \<Rightarrow> network \<Rightarrow> string \<Rightarrow> string \<Rightarrow> string \<Rightarrow> json \<Rightarrow> run" where
  "select_row request env net target label column d =
     (let call = \<lparr>url = env_text (SUPABASE_URL env) @ target, out_method = ''GET'',
                  out_headers = supabaseHeaders env, out_body = None\<rparr>;
          tried = and_then (await (net call)) (\<lambda>res.
                    and_then (res_json res) (\<lambda>arr.
                      if \<not> ok res then
                        json (JObj [(''ok'', JBool False), (''error'', arr)]) 500 (corsHeaders request env)
                      else
                        json (JObj (obj_of [(''ok'', Some (JBool True)),
                                            (label, first_row_field arr column d)]))
                             200 (corsHeaders request env)))
      in \<lparr>reply = try_catch tried (store_caught request env), calls = [call], aborted = []\<rparr>)"

definition handleBuilderStateGet :: "request \<Rightarrow> env \<Rightarrow> network \<Rightarrow> run" where
  "handleBuilderStateGet request env net =
     (if supabase_missing env then answer (not_configured request env)
      else
        let bot = trim (str_or (map_of (req_search request) ''bot'') ''default'')
        in select_row request env net
             (''/rest/v1/builder_states?bot=eq.'' @ encodeURIComponent bot
                @ ''&select=bot,state_json,updated_at&limit=1'')
             ''state'' ''state_json'' JNull)"

definition handleMemoryGet :: "request \<Rightarrow> env \<Rightarrow> network \<Rightarrow> run" where
  "handleMemoryGet request env net =
     (if supabase_missing env then answer (not_configured request env)
      else
        let userId = trim (str_or (map_of (req_search request) ''userId'') ''guest'')
        in select_row request env net
             (''/rest/v1/user_memory?user_id=eq.'' @ encodeURIComponent userId
                @ ''&select=user_id,memory_json,updated_at&limit=1'')
             ''memory'' ''memory_json'' (JObj []))"

text \<open>
  The upsert of one row, shared by the two \<^verbatim>\<open>POST\<close> handlers of the store:
  \<^verbatim>\<open>res.json().catch(() => ({}))\<close>, then the envelope.
\<close>

definition upsert_row ::
  "request \<Rightarrow> env \<Rightarrow> network \<Rightarrow> string \<Rightarrow> (string \<times> string) list \<Rightarrow> json \<Rightarrow> run" where
  "upsert_row request env net target hs payload =
     (let call = \<lparr>url = env_text (SUPABASE_URL env) @ target, out_method = ''POST'',
                  out_headers = hs, out_body = Some payload\<rparr>;
          tried = and_then (await (net call)) (\<lambda>res.
                    and_then (try_catch (res_json res) (\<lambda>e. Returns (JObj []))) (\<lambda>d.
                      if \<not> ok res then
                        json (JObj [(''ok'', JBool False), (''error'', d)]) 500 (corsHeaders request env)
                      else
                        json (JObj [(''ok'', JBool True), (''data'', d)]) 200 (corsHeaders request env)))
      in \<lparr>reply = try_catch tried (store_caught request env), calls = [call], aborted = []\<rparr>)"

definition invalid_json :: "request \<Rightarrow> env \<Rightarrow> response fate" where
  "invalid_json request env =
     json (JObj [(''ok'', JBool False), (''error'', JStr ''invalid json'')]) 400 (corsHeaders request env)"

text \<open>\<open>stamp\<close> is the text \<^verbatim>\<open>new Date().toISOString()\<close> gives when the handler runs.\<close>

definition handleBuilderStatePost :: "request \<Rightarrow> env \<Rightarrow> string \<Rightarrow> network \<Rightarrow> run" where
  "handleBuilderStatePost request env stamp net =
     (if supabase_missing env then answer (not_configured request env)
      else
        (case req_json request of
           None \<Rightarrow> answer (invalid_json request env)
         | Some b \<Rightarrow>
             with_field (string_field (js_get b ''bot'') ''default'') (\<lambda>bot.
               let state = js_get b ''state'' in
               if bot = [] \<or> \<not> truthy_opt state then
                 answer (json (JObj [(''ok'', JBool False), (''error'', JStr ''bot/state required'')]) 400
                              (corsHeaders request env))
               else
                 upsert_row request env net ''/rest/v1/builder_states?on_conflict=bot''
                   (spread (supabaseHeaders env)
                      [(''content-type'', ''application/json''),
                       (''Prefer'', ''resolution=merge-duplicates,return=representation'')])
                   (JArr [JObj (obj_of [(''bot'', Some (JStr bot)), (''state_json'', state),
                                        (''updated_at'', Some (JStr stamp))])]))))"

definition handleMemoryPost :: "request \<Rightarrow> env \<Rightarrow> string \<Rightarrow> network \<Rightarrow> run" where
  "handleMemoryPost request env stamp net =
     (if supabase_missing env then answer (not_configured request env)
      else
        (case req_json request of
           None \<Rightarrow> answer (invalid_json request env)
         | Some b \<Rightarrow>
             with_field (string_field (js_get b ''userId'') ''guest'') (\<lambda>userId.
               let memory = js_or (js_get b ''memory'') (Some (JObj [])) in
               upsert_row request env net ''/rest/v1/user_memory?on_conflict=user_id''
                 (spread (supabaseHeaders env)
                    [(''Prefer'', ''resolution=merge-duplicates,return=representation'')])
                 (JArr [JObj (obj_of [(''user_id'', Some (JStr userId)), (''memory_json'', memory),
                                      (''updated_at'', Some (JStr stamp))])]))))"

definition handleAnalyticsEventPost :: "request \<Rightarrow> env \<Rightarrow> string \<Rightarrow> network \<Rightarrow> run" where
  "handleAnalyticsEventPost request env stamp net =
     (if supabase_missing env then answer (not_configured request env)
      else
        (case req_json request of
           None \<Rightarrow> answer (invalid_json request env)
         | Some b \<Rightarrow>
             with_field (String_or (js_get b ''eventType'') ''message'') (\<lambda>eventType.
             with_field (String_or (js_get b ''userId'') ''guest'') (\<lambda>userId.
             with_field (String_or (js_get b ''sessionId'') ''session'') (\<lambda>sessionId.
             with_field (String_or (js_get b ''nodeId'') []) (\<lambda>nodeId.
               let payload = JArr [JObj (obj_of
                     [(''event_type'', Some (JStr (take 64 eventType))),
                      (''user_id'', Some (JStr (take 128 userId))),
                      (''session_id'', Some (JStr (take 128 sessionId))),
                      (''node_id'', Some (JStr (take 128 nodeId))),
                      (''meta_json'', js_or (js_get b ''meta'') (Some (JObj []))),
                      (''created_at'', Some (JStr stamp))])];
                   call = \<lparr>url = env_text (SUPABASE_URL env) @ ''/rest/v1/analytics_events'',
                           out_method = ''POST'',
                           out_headers = spread (supabaseHeaders env) [(''Prefer'', ''return=minimal'')],
                           out_body = Some payload\<rparr>;
                   tried = and_then (await (net call)) (\<lambda>res.
                             if \<not> ok res then
                               and_then (res_text res) (\<lambda>txt.
                                 json (JObj [(''ok'', JBool False), (''error'', JStr txt)])
                                      500 (corsHeaders request env))
                             else json (JObj [(''ok'', JBool True)]) 200 (corsHeaders request env))
               in \<lparr>reply = try_catch tried (store_caught request env),
                   calls = [call], aborted = []\<rparr>))))))"

subsection \<open>The analytics summary\<close>

text \<open>
  \<^verbatim>\<open>new Set(values).size\<close>: primitives count once for each distinct value, every
  object or array counts for itself.
\<close>

definition is_primitive :: "json option \<Rightarrow> bool" where
  "is_primitive v = (case v of Some (JArr xs) \<Rightarrow> False | Some (JObj kvs) \<Rightarrow> False | _ \<Rightarrow> True)"

definition set_size :: "json option list \<Rightarrow> nat" where
  "set_size vs = length (remdups (filter is_primitive vs))
               + length (filter (\<lambda>v. \<not> is_primitive v) vs)"

text \<open>
  The tally \<^verbatim>\<open>byNode[k] = (byNode[k] || 0) + 1\<close> on an object that starts as \<^verbatim>\<open>{}\<close>.
  A key that names a member of \<^verbatim>\<open>Object.prototype\<close> reads as that member the first
  time, and adding \<open>1\<close> to it gives a text; \<^verbatim>\<open>__proto__\<close> is never stored.
\<close>

datatype tally = Counted int | Texted string

definition inherited_names :: "string list" where
  "inherited_names =
     [''constructor'', ''__defineGetter__'', ''__defineSetter__'', ''hasOwnProperty'',
      ''__lookupGetter__'', ''__lookupSetter__'', ''isPrototypeOf'', ''propertyIsEnumerable'',
      ''toString'', ''valueOf'', ''toLocaleString'']"

definition function_text :: "string \<Rightarrow> string" where
  "function_text k =
     ''function '' @ (if k = ''constructor'' then ''Object'' else k) @ ''() { [native code] }''"

definition bump_node :: "(string \<times> tally) list \<Rightarrow> string \<Rightarrow> (string \<times> tally) list" where
  "bump_node byNode k =
     (if k = ''__proto__'' then byNode
      else AList.update k
             (case map_of byNode k of
                Some (Counted n) \<Rightarrow> if n = 0 then Counted 1 else Counted (n + 1)
              | Some (Texted s) \<Rightarrow> if s = [] then Counted 1 else Texted (s @ ''1'')
              | None \<Rightarrow> if k \<in> set inherited_names then Texted (function_text k @ ''1'')
                        else Counted 1)
             byNode)"

fun count_nodes :: "json list \<Rightarrow> (string \<times> tally) list \<Rightarrow> js_exn + (string \<times> tally) list" where
  "count_nodes [] byNode = Inr byNode"
| "count_nodes (e # es) byNode =
     (case js_or (js_get e ''node_id'') (Some (JStr ''unknown'')) of
        None \<Rightarrow> count_nodes es (bump_node byNode ''undefined'')
      | Some k \<Rightarrow>
          (case js_String k of
             Inl x \<Rightarrow> Inl x
           | Inr s \<Rightarrow> count_nodes es (bump_node byNode s)))"

text \<open>
  The order in which \<^verbatim>\<open>JSON.stringify\<close> writes the keys of an object: the array
  indices in ascending order, then the other keys in the order they were added.
\<close>

definition decimal_value :: "string \<Rightarrow> nat" where
  "decimal_value k = foldl (\<lambda>a c. 10 * a + (of_char c - 48)) 0 k"

definition is_index :: "string \<Rightarrow> bool" where
  "is_index k = (k \<noteq> [] \<and> list_all (\<lambda>c. c \<in> set ''0123456789'') k
                 \<and> (k = ''0'' \<or> take 1 k \<noteq> ''0'') \<and> decimal_value k < 4294967295)"

definition key_order :: "(string \<times> 'a) list \<Rightarrow> (string \<times> 'a) list" where
  "key_order kvs = sort_key (\<lambda>kv. decimal_value (fst kv)) (filter (\<lambda>kv. is_index (fst kv)) kvs)
                  @ filter (\<lambda>kv. \<not> is_index (fst kv)) kvs"

definition tally_json :: "tally \<Rightarrow> json" where
  "tally_json t = (case t of Counted n \<Rightarrow> JNum (show_int n) | Texted s \<Rightarrow> JStr s)"

definition null_read :: "string \<Rightarrow> js_exn" where
  "null_read k = JsError ''TypeError''
     (''Cannot read properties of null (reading '' @ [CHR 0x27] @ k @ [CHR 0x27] @ '')'')"

definition summary :: "json \<Rightarrow> json fate" where
  "summary rows =
     (let events = (case rows of JArr rs \<Rightarrow> rs | _ \<Rightarrow> []) in
      if JNull \<in> set events then Throws (null_read ''event_type'')
      else
        let messages = length (filter (\<lambda>r. js_get r ''event_type'' = Some (JStr ''message'')) events);
            users = set_size (map (\<lambda>r. js_get r ''user_id'') events);
            dropoff = length (filter (\<lambda>r. js_get r ''event_type'' = Some (JStr ''dropoff'')) events)
        in (case count_nodes events [] of
              Inl x \<Rightarrow> Throws x
            | Inr byNode \<Rightarrow>
                Returns (JObj [(''messages'', JNum (show_int (int messages))),
                               (''users'', JNum (show_int (int users))),
                               (''dropoff'', JNum (show_int (int dropoff))),
                               (''byNode'', JObj (map (\<lambda>kv. (fst kv, tally_json (snd kv)))
                                                      (key_order byNode)))])))"

definition handleAnalyticsSummaryGet :: "request \<Rightarrow> env \<Rightarrow> network \<Rightarrow> run" where
  "handleAnalyticsSummaryGet request env net =
     (if supabase_missing env then answer (not_configured request env)
      else
        let call = \<lparr>url = env_text (SUPABASE_URL env)
                           @ ''/rest/v1/analytics_events?select=event_type,user_id,node_id,created_at''
                           @ ''&order=created_at.desc&limit=1000'',
                     out_method = ''GET'', out_headers = supabaseHeaders env, out_body = None\<rparr>;
            tried = and_then (await (net call)) (\<lambda>res.
                      and_then (res_json res) (\<lambda>rows.
                        if \<not> ok res then
                          json (JObj [(''ok'', JBool False), (''error'', rows)]) 500
                               (corsHeaders request env)
                        else
                          and_then (summary rows) (\<lambda>s.
                            json (JObj [(''ok'', JBool True), (''summary'', s)]) 200
                                 (corsHeaders request env))))
        in \<lparr>reply = try_catch tried (store_caught request env), calls = [call], aborted = []\<rparr>)"
section \<open>Automation trigger\<close>

text \<open>\<^verbatim>\<open>v?.[0]\<close> and \<^verbatim>\<open>v?.k\<close> on a value that may be \<^verbatim>\<open>undefined\<close>.\<close>

definition js_first :: "json option \<Rightarrow> json option" where
  "js_first v =
     (case v of
        Some (JArr (x # xs)) \<Rightarrow> Some x
      | Some (JStr (c # cs)) \<Rightarrow> Some (JStr [c])
      | Some (JObj kvs) \<Rightarrow> map_of kvs ''0''
      | _ \<Rightarrow> None)"

definition js_get_opt :: "json option \<Rightarrow> string \<Rightarrow> json option" where
  "js_get_opt v k = (case v of None \<Rightarrow> None | Some x \<Rightarrow> js_get x k)"

definition automation_relay ::
  "request \<Rightarrow> env \<Rightarrow> string \<Rightarrow> network \<Rightarrow> string \<Rightarrow> string \<Rightarrow> string \<Rightarrow> string \<Rightarrow> run" where
  "automation_relay request env stamp net text model persona userId =
     (let call = \<lparr>url = str_or (OPENROUTER_BASE_URL env) DEFAULT_BASE @ ''/chat/completions'',
                  out_method = ''POST'',
                  out_headers = spread (openRouterHeaders env) [(''content-type'', ''application/json'')],
                  out_body = Some (JObj
                    [(''model'', JStr model),
                     (''stream'', JBool False),
                     (''messages'', JArr
                        [JObj [(''role'', JStr ''system''),
                               (''content'', JStr (personaPrompt (Some persona)))],
                         JObj [(''role'', JStr ''user''), (''content'', JStr text)]])])\<rparr>;
          event = \<lparr>url = env_text (SUPABASE_URL env) @ ''/rest/v1/analytics_events'',
                   out_method = ''POST'',
                   out_headers = spread (supabaseHeaders env) [(''Prefer'', ''return=minimal'')],
                   out_body = Some (JArr [JObj
                     [(''event_type'', JStr ''automation''),
                      (''user_id'', JStr userId),
                      (''session_id'', JStr ''automation''),
                      (''node_id'', JStr ''webhook''),
                      (''meta_json'', JObj [(''textLen'', JNum (show_int (int (length text)))),
                                           (''model'', JStr model),
                                           (''persona'', JStr persona)]),
                      (''created_at'', JStr stamp)]])\<rparr>
      in (case await (net call) of
            Hangs \<Rightarrow> \<lparr>reply = Hangs, calls = [call], aborted = []\<rparr>
          | Throws e \<Rightarrow> \<lparr>reply = store_caught request env e, calls = [call], aborted = []\<rparr>
          | Returns upstream \<Rightarrow>
              (case try_catch (res_json upstream) (\<lambda>e. Returns (JObj [])) of
                 Hangs \<Rightarrow> \<lparr>reply = Hangs, calls = [call], aborted = []\<rparr>
               | Throws e \<Rightarrow> \<lparr>reply = store_caught request env e, calls = [call], aborted = []\<rparr>
               | Returns d \<Rightarrow>
                   if \<not> ok upstream then
                     \<lparr>reply = try_catch
                                (json (JObj [(''ok'', JBool False), (''error'', d)])
                                      (if up_status upstream = 0 then 500 else up_status upstream)
                                      (corsHeaders request env))
                                (store_caught request env),
                      calls = [call], aborted = []\<rparr>
                   else
                     let output = js_or (js_get_opt (js_get_opt (js_first (js_get d ''choices''))
                                                                ''message'')
                                                    ''content'')
                                        (Some (JStr []));
                         done = try_catch
                                  (json (JObj (obj_of [(''ok'', Some (JBool True)), (''output'', output)]))
                                        200 (corsHeaders request env))
                                  (store_caught request env)
                     in if supabase_missing env then \<lparr>reply = done, calls = [call], aborted = []\<rparr>
                        else (case net event of
                                Pending \<Rightarrow> \<lparr>reply = Hangs, calls = [call, event], aborted = []\<rparr>
                              | _ \<Rightarrow> \<lparr>reply = done, calls = [call, event], aborted = []\<rparr>))))"

definition handleAutomationTrigger :: "request \<Rightarrow> env \<Rightarrow> string \<Rightarrow> network \<Rightarrow> run" where
  "handleAutomationTrigger request env stamp net =
     (case req_json request of
        None \<Rightarrow> answer (invalid_json request env)
      | Some b \<Rightarrow>
          with_field (string_field (js_get b ''text'') []) (\<lambda>text.
          with_field (string_field (js_get b ''model'') ''openai/gpt-4o-mini'') (\<lambda>model.
          with_field (string_field (js_get b ''persona'') ''support'') (\<lambda>persona.
          with_field (string_field (js_get b ''userId'') ''automation'') (\<lambda>userId.
            if text = [] then
              answer (json (JObj [(''ok'', JBool False), (''error'', JStr ''text required'')]) 400
                           (corsHeaders request env))
            else if \<not> str_truthy (OPEN_ROUTER_API_KEY env) then
              answer (json (JObj [(''ok'', JBool False), (''error'', JStr ''OPEN_ROUTER_API_KEY missing'')])
                           500 (corsHeaders request env))
            else automation_relay request env stamp net text model persona userId)))))"

section \<open>The worker\<close>

text \<open>The three page texts of the module; what they say plays no part here.\<close>

record assets =
  INDEX_HTML :: string
  BUILDER_HTML :: string
  WIDGET_JS :: string

text \<open>
  \<^verbatim>\<open>fetch(request, env)\<close> of the default export, with the state of the module before
  and after: \<open>now\<close> and \<open>stamp\<close> are the clock readings, \<open>net\<close> the behaviour of
  the outside services.
\<close>

definition fetch ::
  "assets \<Rightarrow> request \<Rightarrow> env \<Rightarrow> int \<Rightarrow> string \<Rightarrow> network \<Rightarrow> cache \<Rightarrow> run \<times> cache" where
  "fetch pages request env now stamp net modelsCache =
     (let path = req_pathname request; m = req_method request in
      if m = ''OPTIONS'' then
        (answer (new_Response NoBody 200 (corsHeaders request env)), modelsCache)
      else if path = ''/'' then (answer (htmlResponse (INDEX_HTML pages) request env), modelsCache)
      else if path = ''/builder'' then
        (answer (htmlResponse (BUILDER_HTML pages) request env), modelsCache)
      else if path = ''/api/health'' then
        (answer (json (JObj [(''ok'', JBool True), (''service'', JStr ''kopaing-edge-terminal-chat'')])
                      200 (corsHeaders request env)), modelsCache)
      else if path = ''/api/models'' \<and> m = ''GET'' then handleModels request env now net modelsCache
      else if path = ''/api/chat'' \<and> m = ''POST'' then (handleChat request env net, modelsCache)
      else if path = ''/api/builder/state'' \<and> m = ''GET'' then
        (handleBuilderStateGet request env net, modelsCache)
      else if path = ''/api/builder/state'' \<and> m = ''POST'' then
        (handleBuilderStatePost request env stamp net, modelsCache)
      else if path = ''/api/memory'' \<and> m = ''GET'' then (handleMemoryGet request env net, modelsCache)
      else if path = ''/api/memory'' \<and> m = ''POST'' then
        (handleMemoryPost request env stamp net, modelsCache)
      else if path = ''/api/analytics/event'' \<and> m = ''POST'' then
        (handleAnalyticsEventPost request env stamp net, modelsCache)
      else if path = ''/api/analytics/summary'' \<and> m = ''GET'' then
        (handleAnalyticsSummaryGet request env net, modelsCache)
      else if path = ''/api/automation/trigger'' \<and> m = ''POST'' then
        (handleAutomationTrigger request env stamp net, modelsCache)
      else if path = ''/widget.js'' \<and> m = ''GET'' then
        (answer (new_Response (Text (WIDGET_JS pages)) 200
                   (spread [(''content-type'', ''application/javascript; charset=utf-8'')]
                           (corsHeaders request env))), modelsCache)
      else (answer (json (JObj [(''error'', JStr ''Not found'')]) 404 (corsHeaders request env)),
            modelsCache))"
section \<open>Notions used to state the properties\<close>

text \<open>The handler answered with this status and this JSON payload.\<close>

definition replies :: "run \<Rightarrow> nat \<Rightarrow> json \<Rightarrow> bool" where
  "replies r st payload =
     (case reply r of
        Returns resp \<Rightarrow> status resp = st \<and> resp_body resp = Json payload
      | Throws e \<Rightarrow> False
      | Hangs \<Rightarrow> False)"

text \<open>The \<^verbatim>\<open>models\<close> array of a response.\<close>

definition models_of :: "response \<Rightarrow> json list" where
  "models_of resp =
     (case resp_body resp of
        Json j \<Rightarrow> (case js_get j ''models'' of Some (JArr ms) \<Rightarrow> ms | _ \<Rightarrow> [])
      | _ \<Rightarrow> [])"

text \<open>The cache holds a list that is younger than the time to live.\<close>

definition cache_hit :: "env \<Rightarrow> int \<Rightarrow> cache \<Rightarrow> bool" where
  "cache_hit env now c =
     (case data c of None \<Rightarrow> False | Some ms \<Rightarrow> less_num (now - at c) (models_ttl env))"

text \<open>The states of \<^verbatim>\<open>modelsCache\<close> that a sequence of requests can lead to.\<close>

inductive reachable :: "assets \<Rightarrow> env \<Rightarrow> cache \<Rightarrow> bool" for pages :: assets and env :: env where
  start: "reachable pages env modelsCache_init"
| step: "reachable pages env c \<Longrightarrow> fetch pages request env now stamp net c = (r, c') \<Longrightarrow>
         reachable pages env c'"

text \<open>
  An upstream catalogue with no valid entry: \<^verbatim>\<open>data\<close> is missing or not an array, or
  no entry has an id (a missing, \<^verbatim>\<open>null\<close>, empty, zero or false id is no id).
\<close>

definition lacks_id :: "json \<Rightarrow> bool" where
  "lacks_id m = (\<not> truthy_opt (js_get m ''id''))"


text \<open>
  The projection with \<^verbatim>\<open>name ?? id\<close>: the name is replaced by the id only when it is
  missing or \<^verbatim>\<open>null\<close>.
\<close>

definition nullish :: "json option \<Rightarrow> json option \<Rightarrow> json option" where
  "nullish a b = (case a of None \<Rightarrow> b | Some JNull \<Rightarrow> b | Some v \<Rightarrow> Some v)"

definition nullish_models :: "json \<Rightarrow> json list" where
  "nullish_models d =
     map (\<lambda>m. JObj (obj_of [(''id'', js_get m ''id''),
                              (''name'', nullish (js_get m ''name'') (js_get m ''id''))]))
         (filter (\<lambda>m. \<not> lacks_id m) (upstream_entries d))"

text \<open>
  The projection entry by entry: an entry with an id is listed under that id, named by
  its name when that is truthy and by its id otherwise; an entry with no id is left out.
\<close>

fun listed :: "json list \<Rightarrow> json list" where
  "listed [] = []"
| "listed (m # ms) =
     (case js_get m ''id'' of
        None \<Rightarrow> listed ms
      | Some i \<Rightarrow>
          if truthy i then
            JObj [(''id'', i),
                  (''name'', (case js_get m ''name'' of
                                None \<Rightarrow> i
                              | Some n \<Rightarrow> if truthy n then n else i))] # listed ms
          else listed ms)"

text \<open>\<open>p\<close> spells the lower-case word \<open>w\<close> in some letter case.\<close>

definition case_variant :: "string \<Rightarrow> string \<Rightarrow> bool" where
  "case_variant p w =
     list_all2 (\<lambda>c d. c = d \<or> (c, d) \<in> set (zip ascii_upper ascii_lower)) p w"

definition recognized :: "string \<Rightarrow> bool" where
  "recognized p = (case_variant p ''sales'' \<or> case_variant p ''tutor'' \<or> case_variant p ''support'')"



text \<open>
  The call settles, and the body of its answer, if it has one, comes to an end.
\<close>

definition settled :: "upstream_response promise \<Rightarrow> bool" where
  "settled p =
     (case p of Fulfilled t res \<Rightarrow> \<not> unending res | Rejected t e \<Rightarrow> True | Pending \<Rightarrow> False)"





subsection \<open>Sample inputs\<close>

definition sample_env :: env where
  "sample_env = \<lparr>OPEN_ROUTER_API_KEY = Some ''sk-or-key'', OPENROUTER_BASE_URL = None,
                  MODELS_CACHE_TTL_MS = None, SITE_URL = None, SITE_NAME = None,
                  ALLOWED_ORIGIN = Some ''https://chat.example'', SUPABASE_URL = None,
                  SUPABASE_ANON_KEY = None\<rparr>"

definition sample_pages :: assets where
  "sample_pages = \<lparr>INDEX_HTML = ''<!doctype html>'', BUILDER_HTML = ''<!doctype html>'',
                    WIDGET_JS = ''(function(){})();''\<rparr>"

definition get_request :: "string \<Rightarrow> request" where
  "get_request path = \<lparr>req_method = ''GET'', req_pathname = path, req_search = [],
                        req_headers = [(''Origin'', ''https://chat.example'')], req_json = None\<rparr>"

definition chat_request :: "json \<Rightarrow> request" where
  "chat_request b = \<lparr>req_method = ''POST'', req_pathname = ''/api/chat'', req_search = [],
                      req_headers = [(''origin'', ''https://other.example'')], req_json = Some b\<rparr>"

definition upstream_json :: "nat \<Rightarrow> json \<Rightarrow> upstream_response" where
  "upstream_json st j = \<lparr>up_status = st, up_body = Some [], up_ends = True, up_json = Inr j\<rparr>"

definition catalogue :: json where
  "catalogue = JObj [(''data'', JArr [JObj [(''id'', JStr ''a/b''), (''name'', JStr [])],
                                      JObj [(''name'', JStr ''nameless'')],
                                      JObj [(''id'', JStr ''c/d''), (''name'', JStr ''CD'')]])]"

text \<open>Outside services that never answer, answer after 5 ms, or fail after 5 ms.\<close>

definition silent :: network where
  "silent call = Pending"

definition answering :: "upstream_response \<Rightarrow> network" where
  "answering res call = Fulfilled 5 res"

definition failing :: "js_exn \<Rightarrow> network" where
  "failing e call = Rejected 5 e"

text \<open>The call settles no later than \<open>d\<close> milliseconds after it was started.\<close>

definition settles_within :: "nat \<Rightarrow> 'a promise \<Rightarrow> bool" where
  "settles_within d p =
     (case p of Fulfilled t v \<Rightarrow> t \<le> d | Rejected t e \<Rightarrow> t \<le> d | Pending \<Rightarrow> False)"

definition hello :: json where
  "hello = JObj [(''model'', JStr ''m''), (''prompt'', JStr ''hi'')]"

definition misrouted_env :: env where
  "misrouted_env = sample_env\<lparr>OPENROUTER_BASE_URL := Some ''upstream_timeout''\<rparr>"


definition invalid_url :: js_exn where
  "invalid_url = JsError ''TypeError'' ''Invalid URL: upstream_timeout/chat/completions''"

definition models_request :: request where
  "models_request = get_request ''/api/models''"

definition unavailable :: network where
  "unavailable = answering (upstream_json 503 JNull)"

definition serving :: network where
  "serving = answering (upstream_json 200 catalogue)"

text \<open>What the worker lists for \<open>catalogue\<close>.\<close>

definition catalogue_listed :: "json list" where
  "catalogue_listed = [JObj [(''id'', JStr ''a/b''), (''name'', JStr ''a/b'')],
                       JObj [(''id'', JStr ''c/d''), (''name'', JStr ''CD'')]]"


section \<open>Basic facts\<close>

lemma show_int_8000: "show_int (int MAX_PROMPT_CHARS) = ''8000''"
  by (simp add: show_int_def MAX_PROMPT_CHARS_def)

lemma json_Returns:
  "200 \<le> st \<Longrightarrow> st \<le> 599 \<Longrightarrow> st \<noteq> 204 \<Longrightarrow> st \<noteq> 205 \<Longrightarrow> st \<noteq> 304 \<Longrightarrow>
   json d st hs = Returns \<lparr>status = st,
                           headers = spread [(''content-type'', ''application/json; charset=utf-8'')] hs,
                           resp_body = Json d\<rparr>"
  by (simp add: json_def new_Response_def)

lemma replies_answer_json:
  "200 \<le> st \<Longrightarrow> st \<le> 599 \<Longrightarrow> st \<noteq> 204 \<Longrightarrow> st \<noteq> 205 \<Longrightarrow> st \<noteq> 304 \<Longrightarrow>
   replies (answer (json d st hs)) st' d' = (st = st' \<and> d = d')"
  by (simp add: replies_def answer_def json_Returns)

lemma string_field_JStr: "string_field (Some (JStr s)) d = Returns (trim (if s = [] then d else s))"
  by (simp add: string_field_def String_or_def js_or_def truthy_opt_def and_then_def)

lemma string_field_None: "string_field None d = Returns (trim d)"
  by (simp add: string_field_def String_or_def js_or_def truthy_opt_def and_then_def)

lemma trim_Nil: "trim [] = []"
  by (simp add: trim_def)

lemma trim_default: "trim ''default'' = ''default''"
  by (simp add: trim_def is_space_def)

lemma answer_simps: "reply (answer r) = r" "calls (answer r) = []" "aborted (answer r) = []"
  by (simp_all add: answer_def)

lemma chat_relay_calls:
  "calls (chat_relay request env net model prompt persona) = [chat_call env model prompt persona]"
  by (simp add: chat_relay_def Let_def)

lemma handleChat_valid:
  assumes "str_truthy (OPEN_ROUTER_API_KEY env)"
    and "req_json request = Some b"
    and "string_field (js_get b ''model'') [] = Returns model"
    and "string_field (js_get b ''prompt'') [] = Returns prompt"
    and "string_field (js_get b ''persona'') ''default'' = Returns persona"
    and "model \<noteq> []" and "prompt \<noteq> []" and "length prompt \<le> MAX_PROMPT_CHARS"
  shows "handleChat request env net = chat_relay request env net model prompt persona"
  using assms by (simp add: handleChat_def with_field_def)

lemma handleChat_calls_only_when_valid:
  assumes "calls (handleChat request env net) \<noteq> []"
  shows "str_truthy (OPEN_ROUTER_API_KEY env) \<and>
         (\<exists>b model prompt persona.
            req_json request = Some b
          \<and> string_field (js_get b ''model'') [] = Returns model
          \<and> string_field (js_get b ''prompt'') [] = Returns prompt
          \<and> string_field (js_get b ''persona'') ''default'' = Returns persona
          \<and> model \<noteq> [] \<and> prompt \<noteq> [] \<and> length prompt \<le> MAX_PROMPT_CHARS)"
  using assms
  by (auto simp: handleChat_def with_field_def answer_simps split: if_splits option.splits fate.splits)

lemma trim_replicate_space:
  assumes "\<not> is_space c"
  shows "trim (replicate n c @ '' '') = replicate n c"
proof (cases n)
  case 0
  then show ?thesis by (simp add: trim_def is_space_def)
next
  case (Suc k)
  have sp: "is_space CHR '' ''" by (simp add: is_space_def)
  have front: "dropWhile is_space (replicate n c @ '' '') = replicate n c @ '' ''"
    using assms Suc by simp
  have "rev (replicate n c @ '' '') = CHR '' '' # replicate n c" by simp
  then have "dropWhile is_space (rev (replicate n c @ '' '')) = replicate n c"
    using assms Suc sp by simp
  then show ?thesis by (simp add: trim_def front)
qed

subsection \<open>Letter case\<close>

lemma lower_char_fixes_lower: "\<forall>d \<in> set ascii_lower. lower_char d = d"
  by (simp add: lower_char_def ascii_upper_def ascii_lower_def latin_upper_def latin_lower_def)

lemma lower_char_maps_upper: "\<forall>cd \<in> set (zip ascii_upper ascii_lower). lower_char (fst cd) = snd cd"
  by (simp add: lower_char_def ascii_upper_def ascii_lower_def latin_upper_def latin_lower_def)

lemma latin_lower_not_ascii: "\<forall>d \<in> set latin_lower. d \<notin> set ascii_lower"
  by (simp add: ascii_lower_def latin_lower_def)

lemma lower_char_cases:
  "lower_char c = d \<Longrightarrow>
   c = d \<or> (c, d) \<in> set (zip (ascii_upper @ latin_upper) (ascii_lower @ latin_lower))"
  by (auto simp: lower_char_def split: option.splits dest: map_of_SomeD)

lemma lower_char_variant:
  assumes "c = d \<or> (c, d) \<in> set (zip ascii_upper ascii_lower)" and "d \<in> set ascii_lower"
  shows "lower_char c = d"
  using assms lower_char_fixes_lower lower_char_maps_upper by fastforce

lemma variant_lower_char:
  assumes "lower_char c = d" and "d \<in> set ascii_lower"
  shows "c = d \<or> (c, d) \<in> set (zip ascii_upper ascii_lower)"
proof -
  have len: "length ascii_upper = length ascii_lower"
    by (simp add: ascii_upper_def ascii_lower_def)
  from assms(1) have "c = d \<or> (c, d) \<in> set (zip (ascii_upper @ latin_upper) (ascii_lower @ latin_lower))"
    by (rule lower_char_cases)
  then have "c = d \<or> (c, d) \<in> set (zip ascii_upper ascii_lower) \<or> (c, d) \<in> set (zip latin_upper latin_lower)"
    using len by (simp add: zip_append)
  moreover have "(c, d) \<notin> set (zip latin_upper latin_lower)"
    using assms(2) latin_lower_not_ascii by (meson set_zip_rightD)
  ultimately show ?thesis by blast
qed

lemma case_variant_iff:
  assumes "set w \<subseteq> set ascii_lower"
  shows "case_variant p w \<longleftrightarrow> toLowerCase p = w"
  using assms
proof (induction p arbitrary: w)
  case Nil
  then show ?case by (auto simp: case_variant_def toLowerCase_def)
next
  case (Cons c p)
  show ?case
  proof (cases w)
    case Nil
    then show ?thesis by (simp add: case_variant_def toLowerCase_def)
  next
    case (Cons d w')
    have d: "d \<in> set ascii_lower" and w': "set w' \<subseteq> set ascii_lower"
      using Cons.prems Cons by auto
    have ih: "case_variant p w' \<longleftrightarrow> toLowerCase p = w'"
      using Cons.IH [OF w'] .
    have head: "(c = d \<or> (c, d) \<in> set (zip ascii_upper ascii_lower)) \<longleftrightarrow> lower_char c = d"
      using lower_char_variant [OF _ d] variant_lower_char [OF _ d] by blast
    show ?thesis
      using ih head unfolding Cons case_variant_def toLowerCase_def by simp
  qed
qed

lemma words_lower:
  "set ''sales'' \<subseteq> set ascii_lower" "set ''tutor'' \<subseteq> set ascii_lower" "set ''support'' \<subseteq> set ascii_lower"
  by (simp_all add: ascii_lower_def)

section \<open>Validation of a chat request\<close>

text \<open>
  C5.  \<^verbatim>\<open>handleChat\<close> checks the model first, then that the prompt is not empty, then the
  length of the prompt: whenever the model is empty the answer is 400 with
  \<^verbatim>\<open>model is required\<close>, whatever the prompt is; an empty prompt is reported only for a
  model that is not empty, and a prompt that is too long only when neither is empty.
  Here \<open>model\<close>, \<open>prompt\<close> and \<open>persona\<close> are the trimmed texts of the three fields of
  the body.
\<close>

theorem validation_order:
  assumes "str_truthy (OPEN_ROUTER_API_KEY env)"
    and "req_json request = Some b"
    and "string_field (js_get b ''model'') [] = Returns model"
    and "string_field (js_get b ''prompt'') [] = Returns prompt"
    and "string_field (js_get b ''persona'') ''default'' = Returns persona"
  shows "(model = [] \<longrightarrow>
            replies (handleChat request env net) 400 (JObj [(''error'', JStr ''model is required'')]))
       \<and> (model \<noteq> [] \<and> prompt = [] \<longrightarrow>
            replies (handleChat request env net) 400 (JObj [(''error'', JStr ''prompt is required'')]))
       \<and> (model \<noteq> [] \<and> prompt \<noteq> [] \<and> MAX_PROMPT_CHARS < length prompt \<longrightarrow>
            replies (handleChat request env net) 400
              (JObj [(''error'', JStr ''prompt exceeds 8000 chars'')]))"
  using assms
  by (simp add: handleChat_def with_field_def replies_answer_json show_int_8000)

text \<open>The body \<^verbatim>\<open>{"model": "", "prompt": ""}\<close> is answered with \<^verbatim>\<open>model is required\<close>.\<close>

theorem validation_order_witness:
  "str_truthy (OPEN_ROUTER_API_KEY sample_env)
   \<and> string_field (js_get (JObj [(''model'', JStr []), (''prompt'', JStr [])]) ''model'') [] = Returns []
   \<and> string_field (js_get (JObj [(''model'', JStr []), (''prompt'', JStr [])]) ''prompt'') [] = Returns []
   \<and> replies (handleChat (chat_request (JObj [(''model'', JStr []), (''prompt'', JStr [])]))
                           sample_env silent)
        400 (JObj [(''error'', JStr ''model is required'')])"
  using validation_order [of sample_env "chat_request (JObj [(''model'', JStr []), (''prompt'', JStr [])])"
      "JObj [(''model'', JStr []), (''prompt'', JStr [])]" "[]" "[]" "''default''" silent]
  by (simp add: sample_env_def chat_request_def str_truthy_def string_field_JStr string_field_None
        trim_Nil trim_default)

section \<open>The bound on the prompt\<close>

text \<open>
  C6 (as amended).  The length that counts is that of the prompt after trimming.  A request
  whose model is not empty and whose trimmed prompt has exactly 8000 characters passes
  the checks and its one outbound call is made; with a trimmed prompt of 8001 characters
  the answer is 400, \<^verbatim>\<open>prompt exceeds 8000 chars\<close>, and no outbound call is made.  An
  outbound call is made only when the credential is set, the body is JSON, and model and
  prompt pass all three checks: every other request is answered without any call.
\<close>

theorem prompt_length_boundary:
  "(calls (handleChat request env net) \<noteq> [] \<longrightarrow>
      str_truthy (OPEN_ROUTER_API_KEY env) \<and>
      (\<exists>b model prompt persona.
           req_json request = Some b
         \<and> string_field (js_get b ''model'') [] = Returns model
         \<and> string_field (js_get b ''prompt'') [] = Returns prompt
         \<and> string_field (js_get b ''persona'') ''default'' = Returns persona
         \<and> model \<noteq> [] \<and> prompt \<noteq> [] \<and> length prompt \<le> 8000))
 \<and> (str_truthy (OPEN_ROUTER_API_KEY env)
      \<and> req_json request = Some b
      \<and> string_field (js_get b ''model'') [] = Returns model
      \<and> string_field (js_get b ''prompt'') [] = Returns prompt
      \<and> string_field (js_get b ''persona'') ''default'' = Returns persona
      \<and> model \<noteq> [] \<longrightarrow>
        (length prompt = 8000 \<longrightarrow>
           calls (handleChat request env net) = [chat_call env model prompt persona])
      \<and> (length prompt = 8001 \<longrightarrow>
             replies (handleChat request env net) 400
               (JObj [(''error'', JStr ''prompt exceeds 8000 chars'')])
           \<and> calls (handleChat request env net) = []))"
proof (intro conjI impI)
  assume "calls (handleChat request env net) \<noteq> []"
  then show "str_truthy (OPEN_ROUTER_API_KEY env)"
    and "\<exists>b model prompt persona.
           req_json request = Some b
         \<and> string_field (js_get b ''model'') [] = Returns model
         \<and> string_field (js_get b ''prompt'') [] = Returns prompt
         \<and> string_field (js_get b ''persona'') ''default'' = Returns persona
         \<and> model \<noteq> [] \<and> prompt \<noteq> [] \<and> length prompt \<le> 8000"
    using handleChat_calls_only_when_valid [of request env net]
    by (simp_all add: MAX_PROMPT_CHARS_def)
next
  assume a: "str_truthy (OPEN_ROUTER_API_KEY env)
      \<and> req_json request = Some b
      \<and> string_field (js_get b ''model'') [] = Returns model
      \<and> string_field (js_get b ''prompt'') [] = Returns prompt
      \<and> string_field (js_get b ''persona'') ''default'' = Returns persona
      \<and> model \<noteq> []"
    and l: "length prompt = 8000"
  from l have "prompt \<noteq> []" and "length prompt \<le> MAX_PROMPT_CHARS"
    by (auto simp: MAX_PROMPT_CHARS_def)
  with a show "calls (handleChat request env net) = [chat_call env model prompt persona]"
    by (simp add: handleChat_valid chat_relay_calls)
next
  assume a: "str_truthy (OPEN_ROUTER_API_KEY env)
      \<and> req_json request = Some b
      \<and> string_field (js_get b ''model'') [] = Returns model
      \<and> string_field (js_get b ''prompt'') [] = Returns prompt
      \<and> string_field (js_get b ''persona'') ''default'' = Returns persona
      \<and> model \<noteq> []"
    and l: "length prompt = 8001"
  from l have long: "prompt \<noteq> []" "MAX_PROMPT_CHARS < length prompt"
    by (auto simp: MAX_PROMPT_CHARS_def)
  from a long show "replies (handleChat request env net) 400
                      (JObj [(''error'', JStr ''prompt exceeds 8000 chars'')])"
    by (simp add: handleChat_def with_field_def replies_answer_json show_int_8000)
  from a long show "calls (handleChat request env net) = []"
    by (simp add: handleChat_def with_field_def answer_simps)
qed

lemma not_space_a: "\<not> is_space CHR ''a''"
  by (simp add: is_space_def)

lemma trim_m: "trim ''m'' = ''m''"
  by (simp add: trim_def is_space_def)

text \<open>
  A prompt of 8000 letters followed by one space is trimmed to 8000 characters and its
  call is made.
\<close>

theorem prompt_length_boundary_witness:
  "string_field (js_get (JObj [(''model'', JStr ''m''), (''prompt'', JStr (replicate 8000 CHR ''a'' @ '' ''))])
                  ''prompt'') [] = Returns (replicate 8000 CHR ''a'')
   \<and> calls (handleChat (chat_request (JObj [(''model'', JStr ''m''),
                                            (''prompt'', JStr (replicate 8000 CHR ''a'' @ '' ''))]))
                        sample_env silent)
       = [chat_call sample_env ''m'' (replicate 8000 CHR ''a'') ''default'']"
  using prompt_length_boundary [of
      "chat_request (JObj [(''model'', JStr ''m''), (''prompt'', JStr (replicate 8000 CHR ''a'' @ '' ''))])"
      sample_env silent
      "JObj [(''model'', JStr ''m''), (''prompt'', JStr (replicate 8000 CHR ''a'' @ '' ''))]"
      "''m''" "replicate 8000 CHR ''a''" "''default''"]
  by (simp add: sample_env_def chat_request_def str_truthy_def string_field_JStr string_field_None
        trim_m trim_default trim_replicate_space [OF not_space_a])

text \<open>
  The claim as it was stated fails: this prompt has 8001 characters, and the request is
  not refused but relayed.
\<close>

theorem prompt_of_8001_characters_reaches_upstream:
  "length (replicate 8000 CHR ''a'' @ '' '') = 8001
   \<and> calls (handleChat (chat_request (JObj [(''model'', JStr ''m''),
                                            (''prompt'', JStr (replicate 8000 CHR ''a'' @ '' ''))]))
                        sample_env silent) \<noteq> []
   \<and> \<not> replies (handleChat (chat_request (JObj [(''model'', JStr ''m''),
                                            (''prompt'', JStr (replicate 8000 CHR ''a'' @ '' ''))]))
                        sample_env silent) 400 (JObj [(''error'', JStr ''prompt exceeds 8000 chars'')])"
proof -
  let ?b = "JObj [(''model'', JStr ''m''), (''prompt'', JStr (replicate 8000 CHR ''a'' @ '' ''))]"
  have key: "str_truthy (OPEN_ROUTER_API_KEY sample_env)"
    by (simp add: sample_env_def str_truthy_def)
  have run: "handleChat (chat_request ?b) sample_env silent
             = chat_relay (chat_request ?b) sample_env silent ''m'' (replicate 8000 CHR ''a'') ''default''"
    by (rule handleChat_valid [OF key, of _ ?b])
       (simp_all add: chat_request_def string_field_JStr string_field_None trim_m trim_default
          trim_replicate_space [OF not_space_a] MAX_PROMPT_CHARS_def)
  have "replies (chat_relay (chat_request ?b) sample_env silent ''m'' (replicate 8000 CHR ''a'') ''default'')
          504 (JObj [(''error'', JStr ''upstream timeout'')])"
    by (simp add: chat_relay_def Let_def silent_def fetch_with_timer_def try_catch_def chat_caught_def
          replies_def json_Returns)
  then have "\<not> replies (chat_relay (chat_request ?b) sample_env silent ''m'' (replicate 8000 CHR ''a'') ''default'')
          400 (JObj [(''error'', JStr ''prompt exceeds 8000 chars'')])"
    by (auto simp: replies_def split: fate.splits)
  then show ?thesis
    by (simp add: run chat_relay_calls)
qed

section \<open>Personas\<close>

lemma toLowerCase_default: "toLowerCase ''default'' = ''default''"
  by (simp add: toLowerCase_def lower_char_def ascii_upper_def ascii_lower_def latin_upper_def
        latin_lower_def)

lemma personaPrompt_lower:
  "personaPrompt (Some p) =
     (if p = [] then ''You are Ko Paing style assistant: concise, practical, safe.''
      else if toLowerCase p = ''sales'' then
        ''You are a sales assistant. Be persuasive, concise, and CTA-driven while staying honest.''
      else if toLowerCase p = ''tutor'' then
        ''You are a tutor. Explain step-by-step, ask check questions, and adapt to learner level.''
      else if toLowerCase p = ''support'' then
        ''You are a customer support agent. Be calm, precise, and solution-first.''
      else ''You are Ko Paing style assistant: concise, practical, safe.'')"
proof -
  have d: "toLowerCase ''default'' = ''default''"
    by (simp add: toLowerCase_def lower_char_def ascii_upper_def ascii_lower_def latin_upper_def
          latin_lower_def)
  show ?thesis
    by (simp add: personaPrompt_def str_or_def Let_def d)
qed

lemma personaPrompt_default:
  "personaPrompt (Some ''default'') = ''You are Ko Paing style assistant: concise, practical, safe.''"
  "personaPrompt None = ''You are Ko Paing style assistant: concise, practical, safe.''"
proof -
  have d: "toLowerCase ''default'' = ''default''"
    by (simp add: toLowerCase_def lower_char_def ascii_upper_def ascii_lower_def latin_upper_def
          latin_lower_def)
  show "personaPrompt (Some ''default'') = ''You are Ko Paing style assistant: concise, practical, safe.''"
    by (simp add: personaPrompt_def str_or_def Let_def d)
  show "personaPrompt None = ''You are Ko Paing style assistant: concise, practical, safe.''"
    by (simp add: personaPrompt_def str_or_def Let_def d)
qed

lemma corsHeaders_req_json: "corsHeaders (request\<lparr>req_json := j\<rparr>) env = corsHeaders request env"
  by (simp add: corsHeaders_def)

lemma chat_caught_req_json: "chat_caught (request\<lparr>req_json := j\<rparr>) env = chat_caught request env"
  by (rule ext) (simp add: chat_caught_def corsHeaders_req_json)

lemma upstream_error_req_json:
  "upstream_error (request\<lparr>req_json := j\<rparr>) env = upstream_error request env"
  by (rule ext) (simp add: upstream_error_def corsHeaders_req_json)

lemma chat_relay_req_json:
  "chat_relay (request\<lparr>req_json := j\<rparr>) env net model prompt persona
 = chat_relay request env net model prompt persona"
  unfolding chat_relay_def chat_caught_req_json upstream_error_req_json corsHeaders_req_json ..

lemma handleChat_absent_persona:
  assumes "map_of kvs ''persona'' = None"
  shows "handleChat (request\<lparr>req_json := Some (JObj kvs)\<rparr>) env net
       = handleChat (request\<lparr>req_json := Some (JObj ((''persona'', JStr ''default'') # kvs))\<rparr>) env net"
  using assms
  by (simp add: handleChat_def string_field_None string_field_JStr corsHeaders_req_json
        chat_relay_req_json cong: if_cong)

text \<open>
  C7.  The persona selects the system prompt without regard to letter case:
  \<^verbatim>\<open>sales\<close>, \<^verbatim>\<open>tutor\<close> and \<^verbatim>\<open>support\<close>, spelt in any letter case, select their own
  prompts; every other text gives the prompt of \<^verbatim>\<open>default\<close>, and so does a missing
  persona: a chat request without a \<^verbatim>\<open>persona\<close> field is handled exactly as the same
  request with \<^verbatim>\<open>persona\<close> set to \<^verbatim>\<open>default\<close>.
\<close>

theorem persona_mapping:
  "(case_variant p ''sales'' \<longrightarrow> personaPrompt (Some p) =
       ''You are a sales assistant. Be persuasive, concise, and CTA-driven while staying honest.'')
 \<and> (case_variant p ''tutor'' \<longrightarrow> personaPrompt (Some p) =
       ''You are a tutor. Explain step-by-step, ask check questions, and adapt to learner level.'')
 \<and> (case_variant p ''support'' \<longrightarrow> personaPrompt (Some p) =
       ''You are a customer support agent. Be calm, precise, and solution-first.'')
 \<and> (\<not> recognized p \<longrightarrow> personaPrompt (Some p) = personaPrompt (Some ''default''))
 \<and> personaPrompt None = personaPrompt (Some ''default'')
 \<and> (map_of kvs ''persona'' = None \<longrightarrow>
       handleChat (request\<lparr>req_json := Some (JObj kvs)\<rparr>) env net
     = handleChat (request\<lparr>req_json := Some (JObj ((''persona'', JStr ''default'') # kvs))\<rparr>) env net)"
proof -
  have iff: "case_variant p ''sales'' \<longleftrightarrow> toLowerCase p = ''sales''"
            "case_variant p ''tutor'' \<longleftrightarrow> toLowerCase p = ''tutor''"
            "case_variant p ''support'' \<longleftrightarrow> toLowerCase p = ''support''"
    using words_lower by (simp_all add: case_variant_iff)
  have ne: "toLowerCase p = ''sales'' \<or> toLowerCase p = ''tutor'' \<or> toLowerCase p = ''support''
            \<Longrightarrow> p \<noteq> []"
    by (auto simp: toLowerCase_def)
  show ?thesis
    using ne handleChat_absent_persona [of kvs request env net]
    by (auto simp: iff recognized_def personaPrompt_lower personaPrompt_default toLowerCase_default)
qed

text \<open>Three spellings, an unknown persona, and a request without the field.\<close>

theorem persona_mapping_witness:
  "case_variant ''SaLeS'' ''sales''
   \<and> personaPrompt (Some ''SaLeS'') =
       ''You are a sales assistant. Be persuasive, concise, and CTA-driven while staying honest.''
   \<and> case_variant ''Tutor'' ''tutor''
   \<and> personaPrompt (Some ''Tutor'') =
       ''You are a tutor. Explain step-by-step, ask check questions, and adapt to learner level.''
   \<and> case_variant ''SUPPORT'' ''support''
   \<and> personaPrompt (Some ''SUPPORT'') =
       ''You are a customer support agent. Be calm, precise, and solution-first.''
   \<and> \<not> recognized ''pirate''
   \<and> personaPrompt (Some ''pirate'') = personaPrompt (Some ''default'')
   \<and> handleChat (chat_request (JObj [(''model'', JStr ''m''), (''prompt'', JStr ''hi'')])) sample_env silent
     = handleChat (chat_request (JObj [(''persona'', JStr ''default''), (''model'', JStr ''m''),
                                       (''prompt'', JStr ''hi'')])) sample_env silent"
proof -
  have v: "case_variant ''SaLeS'' ''sales''" "case_variant ''Tutor'' ''tutor''"
          "case_variant ''SUPPORT'' ''support''" "\<not> recognized ''pirate''"
    by (simp_all add: case_variant_def recognized_def ascii_upper_def ascii_lower_def)
  have absent: "map_of [(''model'', JStr ''m''), (''prompt'', JStr ''hi'')] ''persona'' = None"
    by simp
  show ?thesis
    using v absent
      persona_mapping [of "''SaLeS''" "[(''model'', JStr ''m''), (''prompt'', JStr ''hi'')]"
        "chat_request JNull" sample_env silent]
      persona_mapping [of "''Tutor''" "[]" "chat_request JNull" sample_env silent]
      persona_mapping [of "''SUPPORT''" "[]" "chat_request JNull" sample_env silent]
      persona_mapping [of "''pirate''" "[]" "chat_request JNull" sample_env silent]
    by (simp add: chat_request_def)
qed

section \<open>Timeout and network failure of the chat relay\<close>

lemma marker_includes: "includes_str ''upstream_timeout'' ''upstream_timeout''"
  by simp

lemma chat_caught_reply:
  "chat_caught request env e =
     Returns \<lparr>status = (if includes_str (exn_text e) ''upstream_timeout'' then 504 else 502),
              headers = spread [(''content-type'', ''application/json; charset=utf-8'')]
                               (corsHeaders request env),
              resp_body = Json (JObj [(''error'',
                 JStr (if includes_str (exn_text e) ''upstream_timeout'' then ''upstream timeout''
                       else ''network failure''))])\<rparr>"
  by (simp add: chat_caught_def json_Returns)

lemma chat_relay_timeout:
  assumes "\<not> settles_within 30000 (net (chat_call env model prompt persona))"
  shows "replies (chat_relay request env net model prompt persona) 504
           (JObj [(''error'', JStr ''upstream timeout'')])"
    and "aborted (chat_relay request env net model prompt persona) = [chat_call env model prompt persona]"
  using assms
  by (auto simp: chat_relay_def Let_def fetch_with_timer_def settles_within_def try_catch_def
        chat_caught_reply replies_def split: promise.splits)

lemma chat_relay_rejected:
  assumes "net (chat_call env model prompt persona) = Rejected t e" and "t \<le> 30000"
  shows "aborted (chat_relay request env net model prompt persona) = []"
    and "includes_str (exn_text e) ''upstream_timeout'' \<Longrightarrow>
         replies (chat_relay request env net model prompt persona) 504
           (JObj [(''error'', JStr ''upstream timeout'')])"
    and "\<not> includes_str (exn_text e) ''upstream_timeout'' \<Longrightarrow>
         replies (chat_relay request env net model prompt persona) 502
           (JObj [(''error'', JStr ''network failure'')])"
  using assms
  by (simp_all add: chat_relay_def Let_def fetch_with_timer_def try_catch_def
        chat_caught_reply replies_def)

text \<open>
  Once the answer of the upstream has arrived the timer is cleared.  When its status is
  outside \<open>200 .. 299\<close> the body is read to its end before the worker answers: a body
  that never ends leaves the request without an answer, and nothing is aborted.
\<close>

lemma chat_relay_unending_body:
  assumes "net (chat_call env model prompt persona) = Fulfilled t res" and "t \<le> 30000"
    and "\<not> ok res" and "up_body res = Some chunks" and "\<not> up_ends res"
  shows "reply (chat_relay request env net model prompt persona) = Hangs"
    and "aborted (chat_relay request env net model prompt persona) = []"
  using assms
  by (simp_all add: chat_relay_def Let_def fetch_with_timer_def upstream_error_def res_text_def
        unending_def try_catch_def and_then_def)

lemma hello_fields:
  "string_field (js_get hello ''model'') [] = Returns ''m''"
  "string_field (js_get hello ''prompt'') [] = Returns ''hi''"
  "string_field (js_get hello ''persona'') ''default'' = Returns ''default''"
  by (simp_all add: hello_def string_field_JStr string_field_None trim_def is_space_def)

lemma sample_key:
  "str_truthy (OPEN_ROUTER_API_KEY sample_env)" "str_truthy (OPEN_ROUTER_API_KEY misrouted_env)"
  by (simp_all add: sample_env_def misrouted_env_def str_truthy_def)

text \<open>
  C1.  A call that is cut off after 30000 ms is to be answered with 504,
  \<^verbatim>\<open>upstream timeout\<close>, and every other failure of the outbound call with 502,
  \<^verbatim>\<open>network failure\<close>.  \<^verbatim>\<open>handleChat\<close> tells the two apart by looking for the text
  \<^verbatim>\<open>upstream_timeout\<close> in the error it has caught.  With the base address set to that
  text, the outbound call fails after 5 ms with an error that quotes the address:
  the call had settled long before the 30000 ms were over and nothing is aborted, and
  yet the answer is 504, \<^verbatim>\<open>upstream timeout\<close>, not 502, \<^verbatim>\<open>network failure\<close>.
\<close>

theorem failure_reported_as_timeout:
  "settles_within 30000 (failing invalid_url (chat_call misrouted_env ''m'' ''hi'' ''default''))
   \<and> aborted (handleChat (chat_request hello) misrouted_env (failing invalid_url)) = []
   \<and> replies (handleChat (chat_request hello) misrouted_env (failing invalid_url)) 504
         (JObj [(''error'', JStr ''upstream timeout'')])
   \<and> \<not> replies (handleChat (chat_request hello) misrouted_env (failing invalid_url)) 502
         (JObj [(''error'', JStr ''network failure'')])"
proof -
  have req: "req_json (chat_request hello) = Some hello"
    by (simp add: chat_request_def)
  have len: "''m'' \<noteq> []" "''hi'' \<noteq> []" "length ''hi'' \<le> MAX_PROMPT_CHARS"
    by (simp_all add: MAX_PROMPT_CHARS_def)
  have run: "handleChat (chat_request hello) misrouted_env (failing invalid_url)
           = chat_relay (chat_request hello) misrouted_env (failing invalid_url) ''m'' ''hi'' ''default''"
    by (rule handleChat_valid [OF sample_key(2) req hello_fields len])
  have quoted: "includes_str (exn_text invalid_url) ''upstream_timeout''"
    by (simp add: invalid_url_def)
  have rej: "failing invalid_url (chat_call misrouted_env ''m'' ''hi'' ''default'') = Rejected 5 invalid_url"
    by (simp add: failing_def)
  note facts = chat_relay_rejected [of "failing invalid_url" misrouted_env "''m''" "''hi''" "''default''"
                 5 invalid_url "chat_request hello"]
  have a: "aborted (chat_relay (chat_request hello) misrouted_env (failing invalid_url) ''m'' ''hi'' ''default'') = []"
    using facts(1) rej by simp
  have r: "replies (chat_relay (chat_request hello) misrouted_env (failing invalid_url) ''m'' ''hi'' ''default'')
             504 (JObj [(''error'', JStr ''upstream timeout'')])"
    using facts(2) rej quoted by simp
  from r have n: "\<not> replies (chat_relay (chat_request hello) misrouted_env (failing invalid_url) ''m'' ''hi'' ''default'')
             502 (JObj [(''error'', JStr ''network failure'')])"
    by (auto simp: replies_def split: fate.splits)
  show ?thesis
    using a r n by (simp add: run rej settles_within_def)
qed

section \<open>Model listing: the cases of one call\<close>


lemma js_get_project_id: "js_get (project m) ''id'' = js_get m ''id''"
  by (cases "js_get m ''id''"; cases "js_or (js_get m ''name'') (js_get m ''id'')")
     (simp_all add: project_def)

lemma project_all_listed_aux:
  "filter (\<lambda>m. truthy_opt (js_get m ''id'')) (map project xs) = listed xs"
proof (induction xs)
  case Nil
  then show ?case by simp
next
  case (Cons x xs)
  show ?case
  proof (cases "js_get x ''id''")
    case None
    then show ?thesis
      using Cons.IH by (simp add: js_get_project_id truthy_opt_def)
  next
    case (Some i)
    show ?thesis
    proof (cases "truthy i")
      case False
      then show ?thesis
        using Cons.IH Some by (simp add: js_get_project_id truthy_opt_def)
    next
      case True
      have "project x = JObj [(''id'', i),
              (''name'', (case js_get x ''name'' of None \<Rightarrow> i | Some n \<Rightarrow> if truthy n then n else i))]"
        using Some by (cases "js_get x ''name''") (simp_all add: project_def js_or_def truthy_opt_def)
      then show ?thesis
        using Cons.IH Some True by (simp add: truthy_opt_def)
    qed
  qed
qed

lemma project_all_listed: "project_all d = listed (upstream_entries d)"
  by (simp add: project_all_def project_all_listed_aux)


lemma fallbackModels_nonempty: "fallbackModels \<noteq> []"
  by (simp add: fallbackModels_def)

lemma handleModels_miss:
  assumes "str_truthy (OPEN_ROUTER_API_KEY env)" and "\<not> cache_hit env now modelsCache"
  shows "handleModels request env now net modelsCache = handleModels_try request env now net modelsCache"
  using assms by (simp add: handleModels_def cache_hit_def Let_def split: option.splits)

lemma handleModels_hit:
  assumes "str_truthy (OPEN_ROUTER_API_KEY env)" and "data modelsCache = Some ms"
    and "less_num (now - at modelsCache) (models_ttl env)"
  shows "handleModels request env now net modelsCache
       = (answer (json (models_reply ms [(''cached'', True)]) 200 (corsHeaders request env)), modelsCache)"
  using assms by (simp add: handleModels_def Let_def)

lemma try_json_200: "try_catch (json d 200 hs) h = json d 200 hs"
  by (simp add: json_Returns try_catch_def)

lemma handleModels_try_cases:
  "handleModels_try request env now net modelsCache =
     (case net (models_call env) of
        Pending \<Rightarrow> (\<lparr>reply = Hangs, calls = [models_call env], aborted = []\<rparr>, modelsCache)
      | Rejected t e \<Rightarrow>
          (\<lparr>reply = json (models_reply fallbackModels [(''fallback'', True), (''degraded'', True)]) 200
                          (corsHeaders request env),
            calls = [models_call env], aborted = []\<rparr>, modelsCache)
      | Fulfilled t res \<Rightarrow>
          if \<not> ok res then
            (\<lparr>reply = json (models_reply fallbackModels [(''fallback'', True)]) 200 (corsHeaders request env),
              calls = [models_call env], aborted = []\<rparr>, modelsCache)
          else
            (case res_json res of
               Hangs \<Rightarrow> (\<lparr>reply = Hangs, calls = [models_call env], aborted = []\<rparr>, modelsCache)
             | Throws e \<Rightarrow>
                 (\<lparr>reply = json (models_reply fallbackModels [(''fallback'', True), (''degraded'', True)]) 200
                                 (corsHeaders request env),
                   calls = [models_call env], aborted = []\<rparr>, modelsCache)
             | Returns d \<Rightarrow>
                 if project_all d = [] then
                   (\<lparr>reply = json (models_reply fallbackModels [(''fallback'', True)]) 200
                                   (corsHeaders request env),
                     calls = [models_call env], aborted = []\<rparr>, modelsCache)
                 else
                   (\<lparr>reply = json (models_reply (project_all d) [(''cached'', False)]) 200
                                   (corsHeaders request env),
                     calls = [models_call env], aborted = []\<rparr>,
                    \<lparr>at = now, data = Some (project_all d)\<rparr>)))"
  by (simp add: handleModels_try_def Let_def await_def try_json_200 models_caught_def
        split: promise.splits fate.splits)

lemma replies_json_200:
  "replies \<lparr>reply = json d 200 hs, calls = cs, aborted = ab\<rparr> st d' = (st = 200 \<and> d = d')"
  by (auto simp: replies_def json_Returns)


lemma handleModels_result:
  assumes "str_truthy (OPEN_ROUTER_API_KEY env)"
    and "handleModels request env now net modelsCache = (r, c)"
  shows "(\<exists>ms. data modelsCache = Some ms \<and> c = modelsCache
              \<and> r = answer (json (models_reply ms [(''cached'', True)]) 200 (corsHeaders request env)))
       \<or> (reply r = Hangs \<and> c = modelsCache)
       \<or> (c = modelsCache
            \<and> reply r = json (models_reply fallbackModels [(''fallback'', True)]) 200
                              (corsHeaders request env))
       \<or> (c = modelsCache
            \<and> reply r = json (models_reply fallbackModels [(''fallback'', True), (''degraded'', True)]) 200
                              (corsHeaders request env))
       \<or> (\<exists>d. project_all d \<noteq> [] \<and> c = \<lparr>at = now, data = Some (project_all d)\<rparr>
              \<and> reply r = json (models_reply (project_all d) [(''cached'', False)]) 200
                                (corsHeaders request env))"
proof (cases "cache_hit env now modelsCache")
  case True
  then obtain ms where "data modelsCache = Some ms" "less_num (now - at modelsCache) (models_ttl env)"
    by (auto simp: cache_hit_def split: option.splits)
  then show ?thesis
    using assms by (simp add: handleModels_hit)
next
  case False
  then have "handleModels_try request env now net modelsCache = (r, c)"
    using assms by (simp add: handleModels_miss)
  then show ?thesis
    unfolding handleModels_try_cases
    by (auto split: promise.splits fate.splits if_splits)
qed


lemma handleModels_cache:
  assumes "handleModels request env now net modelsCache = (r, c)"
  shows "c = modelsCache
       \<or> (\<exists>d. project_all d \<noteq> [] \<and> c = \<lparr>at = now, data = Some (project_all d)\<rparr>
              \<and> replies r 200 (models_reply (project_all d) [(''cached'', False)]))"
proof (cases "str_truthy (OPEN_ROUTER_API_KEY env)")
  case False
  then show ?thesis using assms by (auto simp: handleModels_def)
next
  case True
  from handleModels_result [OF True assms] show ?thesis
    by (auto simp: replies_def json_Returns)
qed

lemma models_of_reply:
  "models_of \<lparr>status = st, headers = hs, resp_body = Json (models_reply ms fs)\<rparr> = ms"
  by (simp add: models_of_def models_reply_def)

lemma fetch_cache:
  assumes "fetch pages request env now stamp net modelsCache = (r, c)"
  shows "c = modelsCache
       \<or> (\<exists>ms. ms \<noteq> [] \<and> c = \<lparr>at = now, data = Some ms\<rparr>
               \<and> replies r 200 (models_reply ms [(''cached'', False)])
               \<and> req_pathname request = ''/api/models'' \<and> req_method request = ''GET'')"
proof (cases "req_method request \<noteq> ''OPTIONS'' \<and> req_pathname request = ''/api/models''
               \<and> req_method request = ''GET''")
  case True
  then have "handleModels request env now net modelsCache = (r, c)"
    using assms by (simp add: fetch_def Let_def)
  from handleModels_cache [OF this] True show ?thesis by auto
next
  case False
  then have "c = modelsCache"
    using assms by (auto simp: fetch_def Let_def split: if_splits)
  then show ?thesis by simp
qed

lemma reachable_nonempty:
  assumes "reachable pages env c"
  shows "c = modelsCache_init \<or> (\<exists>t ms. ms \<noteq> [] \<and> c = \<lparr>at = t, data = Some ms\<rparr>)"
  using assms
proof (induction rule: reachable.induct)
  case start
  then show ?case by simp
next
  case (step c request now stamp net r c')
  from fetch_cache [OF step.hyps(2)] step.IH show ?case by auto
qed

subsection \<open>The stretches between the awaits\<close>

lemma handleModels_stretches:
  "handleModels request env now net modelsCache =
     (case handleModels_begin request env now modelsCache of
        Inl resp \<Rightarrow> (answer resp, modelsCache)
      | Inr p \<Rightarrow>
          (case net (models_call env) of
             Pending \<Rightarrow> (\<lparr>reply = Hangs, calls = [models_call env], aborted = []\<rparr>, modelsCache)
           | Rejected t e \<Rightarrow>
               (case handleModels_fetched request env now (Inl e) of
                  Inl resp \<Rightarrow> (\<lparr>reply = resp, calls = [models_call env], aborted = []\<rparr>, modelsCache)
                | Inr q \<Rightarrow> (\<lparr>reply = Hangs, calls = [models_call env], aborted = []\<rparr>, modelsCache))
           | Fulfilled t res \<Rightarrow>
               (case handleModels_fetched request env now (Inr res) of
                  Inl resp \<Rightarrow> (\<lparr>reply = resp, calls = [models_call env], aborted = []\<rparr>, modelsCache)
                | Inr q \<Rightarrow>
                    (\<lparr>reply = fst (handleModels_parsed request env now res modelsCache),
                      calls = [models_call env], aborted = []\<rparr>,
                     snd (handleModels_parsed request env now res modelsCache)))))"
  by (simp add: handleModels_def handleModels_try_def handleModels_begin_def handleModels_fetched_def
        handleModels_parsed_def Let_def await_def answer_def
        split: option.splits promise.splits fate.splits)

lemma handleModels_parsed_cache:
  assumes "handleModels_parsed request env now res modelsCache = (resp, c)"
  shows "c = modelsCache
       \<or> (\<exists>ms. ms \<noteq> [] \<and> c = \<lparr>at = now, data = Some ms\<rparr>
               \<and> resp = json (models_reply ms [(''cached'', False)]) 200 (corsHeaders request env))"
  using assms
  by (auto simp: handleModels_parsed_def Let_def try_json_200 split: fate.splits if_splits)

lemma interleaved_whole:
  assumes "interleaved env c ps"
  shows "c = modelsCache_init \<or> (\<exists>t ms. ms \<noteq> [] \<and> c = \<lparr>at = t, data = Some ms\<rparr>)"
  using assms
proof (induction rule: interleaved.induct)
  case boot
  then show ?case by simp
next
  case (parses c ps request now res resp c')
  from handleModels_parsed_cache [OF parses.hyps(4)] parses.IH show ?case by auto
qed auto

lemma handleModels_begin_reads:
  assumes "handleModels_begin request env now modelsCache = Inl resp"
    and "str_truthy (OPEN_ROUTER_API_KEY env)"
  shows "\<exists>ms. data modelsCache = Some ms
            \<and> resp = json (models_reply ms [(''cached'', True)]) 200 (corsHeaders request env)"
  using assms
  by (auto simp: handleModels_begin_def Let_def split: option.splits if_splits)

section \<open>Responses and the allowed origin: helper facts\<close>




























subsection \<open>The sample catalogue\<close>

lemma miss_init: "\<not> cache_hit env now modelsCache_init"
  by (simp add: cache_hit_def modelsCache_init_def)

lemma project_catalogue: "project_all catalogue = catalogue_listed"
  by (simp add: project_all_def upstream_entries_def catalogue_def project_def js_or_def
        truthy_opt_def catalogue_listed_def)

lemma sample_body:
  "res_json (upstream_json st j) = Returns j" "\<not> unending (upstream_json st j)"
  "ok (upstream_json st j) = (200 \<le> st \<and> st \<le> 299)"
  by (simp_all add: res_json_def unending_def upstream_json_def ok_def)

lemma first_serving:
  "handleModels request sample_env now serving modelsCache_init =
     (\<lparr>reply = json (models_reply catalogue_listed [(''cached'', False)]) 200
                     (corsHeaders request sample_env),
       calls = [models_call sample_env], aborted = []\<rparr>,
      \<lparr>at = now, data = Some catalogue_listed\<rparr>)"
  by (simp add: handleModels_miss [OF sample_key(1) miss_init] handleModels_try_cases serving_def
        answering_def sample_body project_catalogue catalogue_listed_def)


lemma sample_ttl: "models_ttl sample_env = Finite 300000"
  by (simp add: models_ttl_def sample_env_def DEFAULT_MODELS_CACHE_TTL_MS_def)

section \<open>Fallback of the model listing\<close>



section \<open>A fresh catalogue\<close>

text \<open>
  C4 (as amended).  On a cache miss with the credential set, when the upstream answers
  with a status in \<open>200 .. 299\<close> and a body with at least one valid entry: every entry
  that has a truthy id is listed, in order, as \<^verbatim>\<open>{id, name}\<close> where the name is the
  entry's name when that is truthy and its id otherwise (\<^verbatim>\<open>name || id\<close>); the entries
  without a truthy id are left out; \<^verbatim>\<open>modelsCache\<close> becomes \<^verbatim>\<open>{at: now, data: models}\<close>
  and the answer is 200 with that list and \<^verbatim>\<open>cached: false\<close>.
\<close>

theorem fresh_catalogue:
  assumes "str_truthy (OPEN_ROUTER_API_KEY env)" and "\<not> cache_hit env now modelsCache"
    and "net (models_call env) = Fulfilled t res" and "ok res" and "res_json res = Returns d"
    and "listed (upstream_entries d) \<noteq> []"
  shows "replies (fst (handleModels request env now net modelsCache)) 200
           (models_reply (listed (upstream_entries d)) [(''cached'', False)])
       \<and> snd (handleModels request env now net modelsCache)
           = \<lparr>at = now, data = Some (listed (upstream_entries d))\<rparr>"
  using assms
  by (simp add: handleModels_miss handleModels_try_cases replies_json_200 project_all_listed)

lemma listed_catalogue: "listed (upstream_entries catalogue) = catalogue_listed"
  using project_catalogue by (simp add: project_all_listed)

text \<open>The sample catalogue: three entries, one of them without an id.\<close>

theorem fresh_catalogue_witness:
  "ok (upstream_json 200 catalogue)
   \<and> listed (upstream_entries catalogue) = catalogue_listed
   \<and> replies (fst (handleModels models_request sample_env 1000 serving modelsCache_init)) 200
         (models_reply catalogue_listed [(''cached'', False)])
   \<and> snd (handleModels models_request sample_env 1000 serving modelsCache_init)
       = \<lparr>at = 1000, data = Some catalogue_listed\<rparr>"
  using fresh_catalogue [OF sample_key(1) miss_init, where net = serving and t = 5
          and res = "upstream_json 200 catalogue" and d = catalogue and request = models_request
          and now = 1000]
  by (simp add: serving_def answering_def sample_body listed_catalogue catalogue_listed_def)

text \<open>
  The claim as it was stated fails: the first entry of the sample catalogue has an empty
  name, which \<^verbatim>\<open>name ?? id\<close> would keep; the worker lists the entry under its id.
\<close>

theorem empty_name_replaced_by_id:
  "nullish_models catalogue = [JObj [(''id'', JStr ''a/b''), (''name'', JStr [])],
                               JObj [(''id'', JStr ''c/d''), (''name'', JStr ''CD'')]]
   \<and> replies (fst (handleModels models_request sample_env 1000 serving modelsCache_init)) 200
         (models_reply [JObj [(''id'', JStr ''a/b''), (''name'', JStr ''a/b'')],
                        JObj [(''id'', JStr ''c/d''), (''name'', JStr ''CD'')]] [(''cached'', False)])
   \<and> \<not> replies (fst (handleModels models_request sample_env 1000 serving modelsCache_init)) 200
         (models_reply (nullish_models catalogue) [(''cached'', False)])"
proof -
  have n: "nullish_models catalogue = [JObj [(''id'', JStr ''a/b''), (''name'', JStr [])],
                                       JObj [(''id'', JStr ''c/d''), (''name'', JStr ''CD'')]]"
    by (simp add: nullish_models_def upstream_entries_def catalogue_def lacks_id_def truthy_opt_def
          nullish_def)
  show ?thesis
    by (simp add: n first_serving replies_json_200 catalogue_listed_def models_reply_def)
qed

section \<open>Freshness of the cache\<close>




section \<open>The cache is replaced as a whole\<close>

text \<open>
  C8.  Whatever the request, the worker leaves \<^verbatim>\<open>modelsCache\<close> as it was or sets it to
  a new pair \<^verbatim>\<open>{at: now, data: models}\<close>, both fields at once, where \<open>models\<close> is the
  list, not empty, that the same call returns with \<^verbatim>\<open>cached: false\<close>; only
  \<^verbatim>\<open>GET /api/models\<close> does the latter.  Of the stretches of \<^verbatim>\<open>handleModels\<close> that run
  without interruption only the last one assigns \<^verbatim>\<open>modelsCache\<close>, and it assigns such a
  pair or nothing.  So under every interleaving of calls the cache is the initial pair
  or a pair that one call has written as a whole, and a call that answers from the cache
  answers with the list of such a pair.
\<close>

theorem cache_replaced_whole:
  "(fetch pages request env now stamp net modelsCache = (r, c) \<longrightarrow>
      c = modelsCache
      \<or> (\<exists>ms. ms \<noteq> [] \<and> c = \<lparr>at = now, data = Some ms\<rparr>
              \<and> replies r 200 (models_reply ms [(''cached'', False)])
              \<and> req_pathname request = ''/api/models'' \<and> req_method request = ''GET''))
 \<and> (handleModels_parsed request env now res modelsCache = (resp, c) \<longrightarrow>
      c = modelsCache
      \<or> (\<exists>ms. ms \<noteq> [] \<and> c = \<lparr>at = now, data = Some ms\<rparr>
              \<and> resp = json (models_reply ms [(''cached'', False)]) 200 (corsHeaders request env)))
 \<and> (interleaved env c ps \<longrightarrow>
      c = modelsCache_init \<or> (\<exists>t ms. ms \<noteq> [] \<and> c = \<lparr>at = t, data = Some ms\<rparr>))
 \<and> (interleaved env c ps \<and> str_truthy (OPEN_ROUTER_API_KEY env)
      \<and> handleModels_begin request env now c = Inl resp \<longrightarrow>
      (\<exists>ms. ms \<noteq> [] \<and> data c = Some ms
            \<and> resp = json (models_reply ms [(''cached'', True)]) 200 (corsHeaders request env)))"
proof (intro conjI impI)
  assume "fetch pages request env now stamp net modelsCache = (r, c)"
  then show "c = modelsCache
      \<or> (\<exists>ms. ms \<noteq> [] \<and> c = \<lparr>at = now, data = Some ms\<rparr>
              \<and> replies r 200 (models_reply ms [(''cached'', False)])
              \<and> req_pathname request = ''/api/models'' \<and> req_method request = ''GET'')"
    by (rule fetch_cache)
next
  assume "handleModels_parsed request env now res modelsCache = (resp, c)"
  then show "c = modelsCache
      \<or> (\<exists>ms. ms \<noteq> [] \<and> c = \<lparr>at = now, data = Some ms\<rparr>
              \<and> resp = json (models_reply ms [(''cached'', False)]) 200 (corsHeaders request env))"
    by (rule handleModels_parsed_cache)
next
  assume "interleaved env c ps"
  then show "c = modelsCache_init \<or> (\<exists>t ms. ms \<noteq> [] \<and> c = \<lparr>at = t, data = Some ms\<rparr>)"
    by (rule interleaved_whole)
next
  assume a: "interleaved env c ps \<and> str_truthy (OPEN_ROUTER_API_KEY env)
      \<and> handleModels_begin request env now c = Inl resp"
  then obtain ms where ms: "data c = Some ms"
      "resp = json (models_reply ms [(''cached'', True)]) 200 (corsHeaders request env)"
    using handleModels_begin_reads [of request env now c resp] by auto
  from a interleaved_whole [of env c ps] ms(1) have "ms \<noteq> []"
    by (auto simp: modelsCache_init_def)
  with ms show "\<exists>ms. ms \<noteq> [] \<and> data c = Some ms
            \<and> resp = json (models_reply ms [(''cached'', True)]) 200 (corsHeaders request env)"
    by simp
qed

lemma sample_parsed:
  "handleModels_parsed request sample_env now (upstream_json 200 catalogue) c =
     (json (models_reply catalogue_listed [(''cached'', False)]) 200 (corsHeaders request sample_env),
      \<lparr>at = now, data = Some catalogue_listed\<rparr>)"
  by (simp add: handleModels_parsed_def sample_body project_catalogue Let_def try_json_200
        catalogue_listed_def)

lemma sample_interleaved:
  "interleaved sample_env \<lparr>at = 1000, data = Some catalogue_listed\<rparr> []"
proof -
  have b: "handleModels_begin models_request sample_env 1000 modelsCache_init
             = Inr (AtFetch models_request 1000)"
    using sample_key(1) by (simp add: handleModels_begin_def modelsCache_init_def)
  have f: "handleModels_fetched models_request sample_env 1000 (Inr (upstream_json 200 catalogue))
             = Inr (AtJson models_request 1000 (upstream_json 200 catalogue))"
    by (simp add: handleModels_fetched_def sample_body)
  have s1: "interleaved sample_env modelsCache_init [AtFetch models_request 1000]"
    by (rule interleaved.arrives [OF interleaved.boot b])
  have s2: "interleaved sample_env modelsCache_init
              (AtJson models_request 1000 (upstream_json 200 catalogue)
                 # remove1 (AtFetch models_request 1000) [AtFetch models_request 1000])"
    by (rule interleaved.fetch_continues [OF s1 _ f]) simp
  have s3: "interleaved sample_env \<lparr>at = 1000, data = Some catalogue_listed\<rparr>
              (remove1 (AtJson models_request 1000 (upstream_json 200 catalogue))
                 [AtJson models_request 1000 (upstream_json 200 catalogue)])"
    using interleaved.parses [OF s2 _ sample_body(2) sample_parsed, of models_request 1000] by simp
  then show ?thesis by simp
qed

text \<open>
  Fetching the sample catalogue replaces the empty cache by the pair; a call one second
  later answers from it.
\<close>

theorem cache_replaced_whole_witness:
  "snd (fetch sample_pages models_request sample_env 1000 [] serving modelsCache_init)
     = \<lparr>at = 1000, data = Some catalogue_listed\<rparr>
   \<and> replies (fst (fetch sample_pages models_request sample_env 1000 [] serving modelsCache_init)) 200
         (models_reply catalogue_listed [(''cached'', False)])
   \<and> snd (handleModels_parsed models_request sample_env 1000 (upstream_json 200 catalogue)
              modelsCache_init) = \<lparr>at = 1000, data = Some catalogue_listed\<rparr>
   \<and> interleaved sample_env \<lparr>at = 1000, data = Some catalogue_listed\<rparr> []
   \<and> handleModels_begin models_request sample_env 2000 \<lparr>at = 1000, data = Some catalogue_listed\<rparr>
       = Inl (json (models_reply catalogue_listed [(''cached'', True)]) 200
                   (corsHeaders models_request sample_env))"
proof -
  have run: "fetch sample_pages models_request sample_env 1000 [] serving modelsCache_init
     = (fst (fetch sample_pages models_request sample_env 1000 [] serving modelsCache_init),
        \<lparr>at = 1000, data = Some catalogue_listed\<rparr>)"
    by (simp add: fetch_def Let_def models_request_def get_request_def first_serving)
  have differs: "\<lparr>at = 1000, data = Some catalogue_listed\<rparr> \<noteq> modelsCache_init"
    by (simp add: modelsCache_init_def)
  have hit: "handleModels_begin models_request sample_env 2000 \<lparr>at = 1000, data = Some catalogue_listed\<rparr>
       = Inl (json (models_reply catalogue_listed [(''cached'', True)]) 200
                   (corsHeaders models_request sample_env))"
    using sample_key(1) by (simp add: handleModels_begin_def sample_ttl)
  have whole: "snd (fetch sample_pages models_request sample_env 1000 [] serving modelsCache_init)
                 = \<lparr>at = 1000, data = Some catalogue_listed\<rparr>"
    using run by (metis snd_conv)
  have fresh: "replies (fst (fetch sample_pages models_request sample_env 1000 [] serving
                               modelsCache_init)) 200
                 (models_reply catalogue_listed [(''cached'', False)])"
    using run differs
      cache_replaced_whole [where pages = sample_pages and request = models_request
        and env = sample_env and now = 1000 and stamp = "[]" and net = serving
        and modelsCache = modelsCache_init
        and r = "fst (fetch sample_pages models_request sample_env 1000 [] serving modelsCache_init)"
        and c = "\<lparr>at = 1000, data = Some catalogue_listed\<rparr>"]
    by auto
  show ?thesis
    using whole fresh hit sample_interleaved by (simp add: sample_parsed)
qed

section \<open>The model listing always answers\<close>

text \<open>
  C10.  In every state of the cache that requests can lead to, with the credential set,
  a call to the model listing that is served from the cache, or whose outbound call
  settles (with any status, any body that comes to an end when the status is in
  \<open>200 .. 299\<close>, or an exception), answers 200 with a \<^verbatim>\<open>models\<close> array that is not empty.
  Without the credential the answer is 500.
\<close>

theorem models_always_answered:
  assumes "reachable pages env modelsCache"
    and "cache_hit env now modelsCache
         \<or> net (models_call env) \<noteq> Pending
           \<and> (\<forall>t res. net (models_call env) = Fulfilled t res \<and> ok res \<longrightarrow> \<not> unending res)"
  shows "(str_truthy (OPEN_ROUTER_API_KEY env) \<longrightarrow>
            (\<exists>resp. reply (fst (handleModels request env now net modelsCache)) = Returns resp
                  \<and> status resp = 200 \<and> models_of resp \<noteq> []))
       \<and> (\<not> str_truthy (OPEN_ROUTER_API_KEY env) \<longrightarrow>
            (\<exists>resp. reply (fst (handleModels request env now net modelsCache)) = Returns resp
                  \<and> status resp = 500))"
proof (intro conjI impI)
  assume key: "str_truthy (OPEN_ROUTER_API_KEY env)"
  show "\<exists>resp. reply (fst (handleModels request env now net modelsCache)) = Returns resp
              \<and> status resp = 200 \<and> models_of resp \<noteq> []"
  proof (cases "cache_hit env now modelsCache")
    case True
    then obtain ms where ms: "data modelsCache = Some ms"
        and fresh: "less_num (now - at modelsCache) (models_ttl env)"
      by (auto simp: cache_hit_def split: option.splits)
    from reachable_nonempty [OF assms(1)] ms have "ms \<noteq> []"
      by (auto simp: modelsCache_init_def)
    then show ?thesis
      using key ms fresh by (simp add: handleModels_hit answer_simps json_Returns models_of_reply)
  next
    case False
    with assms(2) have "net (models_call env) \<noteq> Pending"
      and "\<forall>t res. net (models_call env) = Fulfilled t res \<and> ok res \<longrightarrow> res_json res \<noteq> Hangs"
      by (auto simp: res_json_def split: sum.splits)
    then show ?thesis
      using key False
      by (auto simp: handleModels_miss handleModels_try_cases json_Returns models_of_reply
            fallbackModels_nonempty split: promise.splits fate.splits)
  qed
next
  assume "\<not> str_truthy (OPEN_ROUTER_API_KEY env)"
  then show "\<exists>resp. reply (fst (handleModels request env now net modelsCache)) = Returns resp
              \<and> status resp = 500"
    by (simp add: handleModels_def answer_simps json_Returns)
qed

text \<open>The first call of a process, with the upstream down.\<close>

theorem models_always_answered_witness:
  "reachable sample_pages sample_env modelsCache_init
   \<and> unavailable (models_call sample_env) = Fulfilled 5 (upstream_json 503 JNull)
   \<and> \<not> ok (upstream_json 503 JNull)
   \<and> str_truthy (OPEN_ROUTER_API_KEY sample_env)
   \<and> (\<exists>resp. reply (fst (handleModels models_request sample_env 1000 unavailable modelsCache_init))
                  = Returns resp
              \<and> status resp = 200 \<and> models_of resp \<noteq> [])"
proof -
  have settles: "unavailable (models_call sample_env) = Fulfilled 5 (upstream_json 503 JNull)"
    "\<not> ok (upstream_json 503 JNull)"
    by (simp_all add: unavailable_def answering_def sample_body)
  show ?thesis
    using settles sample_key(1)
      models_always_answered [where pages = sample_pages and env = sample_env
        and modelsCache = modelsCache_init and net = unavailable and now = 1000
        and request = models_request]
    by (simp add: reachable.start)
qed

section \<open>What escapes a handler\<close>

text \<open>
  The handlers catch what their outbound calls throw.  The one exception that can leave
  the worker is the \<^verbatim>\<open>TypeError\<close> of a \<^verbatim>\<open>String(...)\<close> conversion of a body field,
  which the handlers apply outside their \<^verbatim>\<open>try\<close> blocks.
\<close>

lemma js_String_throws:
  "js_String x = Inl e \<Longrightarrow> e = cannot_convert"
  "js_join xs = Inl e \<Longrightarrow> e = cannot_convert"
  by (induction x and xs rule: js_String_js_join.induct)
     (auto split: if_splits sum.splits)

lemma String_or_throws: "String_or v d = Throws e \<Longrightarrow> e = cannot_convert"
  by (auto simp: String_or_def js_String_throws split: option.splits sum.splits)

lemma string_field_throws: "string_field v d = Throws e \<Longrightarrow> e = cannot_convert"
  by (auto simp: string_field_def and_then_def String_or_throws split: fate.splits)

lemma json_no_throw: "200 \<le> st \<Longrightarrow> st \<le> 599 \<Longrightarrow> st \<noteq> 204 \<Longrightarrow> st \<noteq> 205 \<Longrightarrow> st \<noteq> 304 \<Longrightarrow>
  json d st hs \<noteq> Throws e"
  by (simp add: json_Returns)

lemma try_catch_no_throw:
  assumes "\<And>x. h x \<noteq> Throws e"
  shows "try_catch m h \<noteq> Throws e"
  using assms by (auto simp: try_catch_def split: fate.splits)

lemma caught_no_throw:
  "store_caught request env x \<noteq> Throws e" "chat_caught request env x \<noteq> Throws e"
  "models_caught request env x \<noteq> Throws e"
  by (simp_all add: store_caught_def chat_caught_def models_caught_def Let_def json_Returns)

lemma with_field_throws:
  assumes "reply (with_field f k) = Throws e"
    and "\<And>x. f = Throws x \<Longrightarrow> x = cannot_convert"
    and "\<And>s. reply (k s) = Throws e \<Longrightarrow> e = cannot_convert"
  shows "e = cannot_convert"
  using assms by (auto simp: with_field_def answer_simps split: fate.splits)

lemma handleChat_throws: "reply (handleChat request env net) = Throws e \<Longrightarrow> e = cannot_convert"
  by (auto simp: handleChat_def answer_simps json_Returns chat_relay_def Let_def
        try_catch_no_throw caught_no_throw
        split: if_splits option.splits
        elim!: with_field_throws dest: string_field_throws)

lemma handleModels_throws: "reply (fst (handleModels request env now net c)) \<noteq> Throws e"
  by (auto simp: handleModels_stretches handleModels_begin_def handleModels_fetched_def
        handleModels_parsed_def Let_def answer_simps json_Returns try_catch_def caught_no_throw
        split: option.splits sum.splits promise.splits fate.splits if_splits)

lemma select_row_throws: "reply (select_row request env net target label column d) \<noteq> Throws e"
  by (simp add: select_row_def Let_def try_catch_no_throw caught_no_throw)

lemma upsert_row_throws: "reply (upsert_row request env net target hs payload) \<noteq> Throws e"
  by (simp add: upsert_row_def Let_def try_catch_no_throw caught_no_throw)

lemma automation_relay_throws:
  "reply (automation_relay request env stamp net text model persona userId) \<noteq> Throws e"
  by (auto simp: automation_relay_def Let_def try_catch_no_throw caught_no_throw
        split: fate.splits promise.splits if_splits)

lemma store_handlers_throw:
  "reply (handleBuilderStateGet request env net) \<noteq> Throws e"
  "reply (handleMemoryGet request env net) \<noteq> Throws e"
  "reply (handleAnalyticsSummaryGet request env net) \<noteq> Throws e"
  "reply (handleBuilderStatePost request env stamp net) = Throws e \<Longrightarrow> e = cannot_convert"
  "reply (handleMemoryPost request env stamp net) = Throws e \<Longrightarrow> e = cannot_convert"
  "reply (handleAnalyticsEventPost request env stamp net) = Throws e \<Longrightarrow> e = cannot_convert"
  "reply (handleAutomationTrigger request env stamp net) = Throws e \<Longrightarrow> e = cannot_convert"
  by (auto simp: handleBuilderStateGet_def handleMemoryGet_def handleAnalyticsSummaryGet_def
        handleBuilderStatePost_def handleMemoryPost_def handleAnalyticsEventPost_def
        handleAutomationTrigger_def
        not_configured_def invalid_json_def
        Let_def answer_simps json_Returns try_catch_no_throw caught_no_throw
        select_row_throws upsert_row_throws automation_relay_throws
        split: if_splits option.splits
        elim!: with_field_throws dest: string_field_throws String_or_throws)

lemma fetch_throws:
  "reply (fst (fetch pages request env now stamp net modelsCache)) = Throws e \<Longrightarrow> e = cannot_convert"
  by (auto simp: fetch_def Let_def answer_simps json_Returns new_Response_def htmlResponse_def
        handleModels_throws store_handlers_throw handleChat_throws
        split: if_splits)

subsection \<open>The field that cannot be converted\<close>











section \<open>Requests that get no answer\<close>





















section \<open>The allowed origin\<close>








end
